theory Spec2Isabelle
  imports Main "HOL-Library.AList"
begin

section \<open>Strings\<close>

text \<open>
  A string is a list of characters; a character stands for the code point of the same
  number, so the strings of the model are the strings over the code points below 256.
  On these, \<open>String.prototype.toLowerCase\<close> moves the upper-case letters
  (A to Z, and 192 to 222 without the multiplication sign 215) up by 32, and
  \<open>String.prototype.trim\<close> removes tab, line feed, vertical tab, form feed,
  carriage return, space and no-break space from both ends.
\<close>

definition toLowerCaseChar :: "char \<Rightarrow> char" where
  "toLowerCaseChar c =
     (let n = (of_char c :: nat)
      in if (65 \<le> n \<and> n \<le> 90) \<or> (192 \<le> n \<and> n \<le> 222 \<and> n \<noteq> 215)
         then char_of (n + 32) else c)"

definition toLowerCase :: "string \<Rightarrow> string" where
  "toLowerCase s = map toLowerCaseChar s"

definition isWhiteSpace :: "char \<Rightarrow> bool" where
  "isWhiteSpace c = ((of_char c :: nat) \<in> {9, 10, 11, 12, 13, 32, 160})"

definition trim :: "string \<Rightarrow> string" where
  "trim s = rev (dropWhile isWhiteSpace (rev (dropWhile isWhiteSpace s)))"

section \<open>Syntax trees\<close>

text \<open>
  The parts of the compiler's syntax tree that the analyzer reads. A node is identified
  by its position in the program (\<open>location\<close>); the type checker and the other
  collaborators are asked about a node through its position or the node itself.
\<close>

type_synonym location = nat

datatype expr =
    Identifier string
  | PrivateIdentifier string
  | StringLiteral string
  | NoSubstitutionTemplateLiteral string
  | PropertyAccessExpression expr expr
  | CallExpression expr "expr list"
  | OtherExpression

fun isIdentifier :: "expr \<Rightarrow> bool" where
  "isIdentifier (Identifier _) = True"
| "isIdentifier _ = False"

fun isStringLiteralLike :: "expr \<Rightarrow> bool" where
  "isStringLiteralLike (StringLiteral _) = True"
| "isStringLiteralLike (NoSubstitutionTemplateLiteral _) = True"
| "isStringLiteralLike _ = False"

text \<open>The \<open>text\<close> property of an identifier or of a literal.\<close>

fun exprText :: "expr \<Rightarrow> string" where
  "exprText (Identifier s) = s"
| "exprText (PrivateIdentifier s) = s"
| "exprText (StringLiteral s) = s"
| "exprText (NoSubstitutionTemplateLiteral s) = s"
| "exprText _ = []"

text \<open>A child of the parent of a class, as \<open>forEachChild\<close> visits it.\<close>

datatype child_node = ExpressionStatement expr | OtherChild

text \<open>
  The comment of a documentation tag is a string, a sequence of comment nodes (when it
  holds an inline link), or absent.
\<close>

datatype jsdoc_comment = CommentString string | CommentNodes | CommentUndefined

record jsdoc_tag =
  tagName :: string
  comment :: jsdoc_comment

datatype modifier =
    StaticKeyword | PublicKeyword | ProtectedKeyword | PrivateKeyword
  | DefaultKeyword | ExportKeyword | OtherModifier

datatype property_name =
    NameIdentifier string
  | NamePrivateIdentifier string
  | NameStringLiteral string
  | NameNumericLiteral string
  | ComputedPropertyName string

text \<open>\<open>getText\<close> of a member name: its source text, which each name carries.\<close>

fun getText :: "property_name \<Rightarrow> string" where
  "getText (NameIdentifier s) = s"
| "getText (NamePrivateIdentifier s) = s"
| "getText (NameStringLiteral s) = s"
| "getText (NameNumericLiteral s) = s"
| "getText (ComputedPropertyName s) = s"

fun isIdentifierName :: "property_name \<Rightarrow> bool" where
  "isIdentifierName (NameIdentifier _) = True"
| "isIdentifierName _ = False"

record member_decl =
  memberPos :: location
  memberName :: property_name
  memberModifiers :: "modifier list"

text \<open>
  A class element: a method declaration with or without an implementation body, a
  property declaration with the source text of its initializer, or anything else
  (constructor, accessor, index signature, static block).
\<close>

datatype class_element =
    MethodDeclaration member_decl bool
  | PropertyDeclaration member_decl "string option"
  | OtherClassElement

datatype heritage_token = ExtendsKeyword | ImplementsKeyword

record heritage_clause =
  clausePos :: location
  token :: heritage_token
  types :: "expr list"

record class_like =
  classPos :: location
  className :: "string option"
  classModifiers :: "modifier list"
  jsDocTags :: "jsdoc_tag list"
  parentChildren :: "child_node list"
  heritageClauses :: "heritage_clause list option"
  members :: "class_element list"

datatype node =
    ClassLike class_like
  | InterfaceDeclaration string
  | OtherNode

fun isClassLike :: "node \<Rightarrow> bool" where
  "isClassLike (ClassLike _) = True"
| "isClassLike _ = False"

section \<open>Tag name resolution\<close>

text \<open>
  The callback that \<open>getTagName\<close> hands to \<open>forEachChild\<close>: it overwrites
  \<open>tagName\<close> at every statement of the form \<open>customElements.define('x-foo', XFoo)\<close>
  whose second argument is the name of the class, and it returns nothing, so every
  child is visited.
\<close>

definition defineCall :: "class_like \<Rightarrow> child_node \<Rightarrow> string option \<Rightarrow> string option" where
  "defineCall node child tagName' =
     (case child of
        ExpressionStatement (CallExpression (PropertyAccessExpression expression name') arguments) \<Rightarrow>
          if length arguments \<ge> 2 then
            (let tagNameArg = arguments ! 0; ctorArg = arguments ! 1
             in if isIdentifier expression \<and> exprText expression = ''customElements''
                   \<and> isIdentifier name' \<and> exprText name' = ''define''
                   \<and> isStringLiteralLike tagNameArg
                   \<and> isIdentifier ctorArg \<and> Some (exprText ctorArg) = className node
                then Some (exprText tagNameArg) else tagName')
          else tagName'
      | _ \<Rightarrow> tagName')"

definition getTagName :: "class_like \<Rightarrow> string option" where
  "getTagName node =
     (let jsdocTag = find (\<lambda>tag. toLowerCase (tagName tag) = ''customelement'') (jsDocTags node)
      in case (case jsdocTag of
                 Some tag \<Rightarrow> (case comment tag of CommentString s \<Rightarrow> Some s | _ \<Rightarrow> None)
               | None \<Rightarrow> None) of
           Some s \<Rightarrow> Some (trim s)
         | None \<Rightarrow> fold (defineCall node) (parentChildren node) None)"

section \<open>Type syntax, references and diagnostics\<close>

datatype entity_name = EntityIdentifier string | QualifiedName entity_name string

datatype literal_node = StringLiteralNode string | OtherLiteralNode

text \<open>
  A type node with the children that \<open>forEachChild\<close> visits: a type reference has
  its name and its type arguments, an import type has its argument, its qualifier and
  its type arguments.
\<close>

datatype type_node =
    TypeReferenceNode entity_name "type_node list"
  | ImportTypeNode type_node "entity_name option" "type_node list"
  | LiteralTypeNode literal_node
  | OtherTypeNode "type_node list"

record reference =
  refName :: string
  refModule :: "string option"

datatype diagnostic_category = Warning | Error | Suggestion | Message

datatype diagnostic_code = UNSUPPORTED

datatype diagnostic_node =
    AtLocation location
  | AtExpression expr
  | AtTypeNode type_node
  | AtLiteral literal_node

text \<open>
  A diagnostic is what \<open>createDiagnostic\<close> is given: the node, the message, and
  the category and the code when the caller names them.
\<close>

record diagnostic =
  diagNode :: diagnostic_node
  messageText :: string
  category :: "diagnostic_category option"
  code :: "diagnostic_code option"

definition createDiagnostic ::
  "diagnostic_node \<Rightarrow> string \<Rightarrow> diagnostic_category option \<Rightarrow> diagnostic_code option \<Rightarrow> diagnostic" where
  "createDiagnostic n m c k = \<lparr>diagNode = n, messageText = m, category = c, code = k\<rparr>"

text \<open>
  The collection of diagnostics of the analyzer is the state that every function
  passes on; \<open>addDiagnostic\<close> appends to it.
\<close>

definition addDiagnostic :: "diagnostic \<Rightarrow> diagnostic list \<Rightarrow> diagnostic list" where
  "addDiagnostic d ds = ds @ [d]"

section \<open>The analyzer and its collaborators\<close>

text \<open>
  The type checker of the program (\<open>analyzer.program.getTypeChecker()\<close>), over the
  compiler's types \<open>'ty\<close>. \<open>getSymbolDeclarations t\<close> is
  \<open>t.getSymbol()?.getDeclarations()\<close>.
\<close>

record 'ty type_checker =
  getTypeAtLocation :: "location \<Rightarrow> 'ty"
  getBaseTypes :: "'ty \<Rightarrow> 'ty list"
  getSymbolDeclarations :: "'ty \<Rightarrow> node list option"
  getBaseTypeOfLiteralType :: "'ty \<Rightarrow> 'ty"
  typeToString :: "'ty \<Rightarrow> string"
  typeToTypeNode :: "'ty \<Rightarrow> location \<Rightarrow> type_node option"
  getTypeFromTypeNode :: "type_node \<Rightarrow> 'ty"

datatype privacy = Public | Protected | Private

record package_info =
  rootDir :: string
  packageName :: string
  packageMain :: "string option"
  packageModule :: "string option"

text \<open>
  The analyzer, with the functions that these sources import from modules outside them
  (the path and package utilities, the reference resolver, the modifier inspection, the
  function and documentation parsers). A collaborator that may report diagnostics
  returns the ones it appends beside its result.
\<close>

record ('ty, 'sym, 'fn, 'doc) analyzer =
  checker :: "'ty type_checker"
  pathNormalize :: "string \<Rightarrow> string"
  pathIsAbsolute :: "string \<Rightarrow> bool"
  resolveExtension :: "string \<Rightarrow> string"
  getPackageInfo :: "string \<Rightarrow> package_info"
  absoluteToPackage :: "string \<Rightarrow> string \<Rightarrow> string"
  getSymbolForName :: "string \<Rightarrow> location \<Rightarrow> 'sym option"
  getReferenceForSymbol :: "'sym \<Rightarrow> location \<Rightarrow> reference option \<times> diagnostic list"
  getImportReference :: "string \<Rightarrow> literal_node \<Rightarrow> string \<Rightarrow> reference \<times> diagnostic list"
  getReferenceForIdentifier :: "expr \<Rightarrow> reference option \<times> diagnostic list"
  hasStaticModifier :: "class_element \<Rightarrow> bool"
  getPrivacy :: "class_element \<Rightarrow> privacy"
  hasDefaultModifier :: "class_like \<Rightarrow> bool"
  hasExportModifier :: "class_like \<Rightarrow> bool"
  getFunctionLikeInfo :: "class_element \<Rightarrow> string \<Rightarrow> 'fn \<times> diagnostic list"
  parseNodeJSDocInfo :: "class_element \<Rightarrow> 'doc \<times> diagnostic list"

section \<open>The custom-element classifier\<close>

text \<open>
  A search for the first element on which a test holds, as \<open>Array.prototype.some\<close>
  and a \<open>for\<close> loop that returns at the first hit do it: the elements after the hit
  are not looked at, and a test that does not return leaves the search without a result.
\<close>

fun someOf :: "('a \<Rightarrow> bool option) \<Rightarrow> 'a list \<Rightarrow> bool option" where
  "someOf f [] = Some False"
| "someOf f (x # xs) =
     (case f x of None \<Rightarrow> None | Some True \<Rightarrow> Some True | Some False \<Rightarrow> someOf f xs)"

text \<open>
  \<open>_isCustomElementClassDeclaration\<close>, over the classifier it calls back
  (\<open>rec\<close>, which is \<open>isCustomElementSubclass\<close> with the fuel that is left).
\<close>

definition isCustomElementClassDeclaration ::
  "(node \<Rightarrow> bool option) \<Rightarrow> ('ty, 'sym, 'fn, 'doc) analyzer \<Rightarrow> 'ty \<Rightarrow> bool option" where
  "isCustomElementClassDeclaration rec an t =
     (case getSymbolDeclarations (checker an) t of
        None \<Rightarrow> Some False
      | Some declarations \<Rightarrow>
          someOf (\<lambda>declaration.
                    case declaration of
                      InterfaceDeclaration name' \<Rightarrow>
                        if name' = ''HTMLElement'' then Some True else rec declaration
                    | _ \<Rightarrow> rec declaration)
                 declarations)"

text \<open>
  \<open>isCustomElementSubclass\<close>. The walk over the base types follows what the type
  checker reports and nothing bounds it, so the model counts the calls: every call takes
  one unit of fuel, and \<open>None\<close> is a walk that did not return within the fuel given.
\<close>

primrec isCustomElementSubclass ::
  "nat \<Rightarrow> ('ty, 'sym, 'fn, 'doc) analyzer \<Rightarrow> node \<Rightarrow> bool option" where
  "isCustomElementSubclass 0 an node = None"
| "isCustomElementSubclass (Suc fuel) an node =
     (case node of
        ClassLike c \<Rightarrow>
          if getTagName c \<noteq> None then Some True
          else (let type = getTypeAtLocation (checker an) (classPos c);
                    baseTypes = getBaseTypes (checker an) type
                in someOf (isCustomElementClassDeclaration (isCustomElementSubclass fuel an) an)
                     baseTypes)
      | _ \<Rightarrow> Some False)"

text \<open>
  The class \<open>c\<close> has one base type, the declarations of whose symbol hold \<open>d\<close> and,
  beside it, no class (an interface or a variable of the same name may be merged
  with it): \<open>d\<close> is the only \<open>extends\<close> target of \<open>c\<close>.
\<close>

definition onlyExtends :: "('ty, 'sym, 'fn, 'doc) analyzer \<Rightarrow> class_like \<Rightarrow> node \<Rightarrow> bool" where
  "onlyExtends an c d =
     (case getBaseTypes (checker an) (getTypeAtLocation (checker an) (classPos c)) of
        [t] \<Rightarrow> (case getSymbolDeclarations (checker an) t of
                  Some ds \<Rightarrow> d \<in> set ds \<and> list_all (\<lambda>d'. d' = d \<or> \<not> isClassLike d') ds
                | None \<Rightarrow> False)
      | _ \<Rightarrow> False)"

text \<open>
  \<open>extendsHTMLElement an n c\<close>: the class \<open>c\<close> extends the interface
  \<open>HTMLElement\<close> through \<open>n\<close> levels of inheritance, each class of the chain
  having the next one as its only \<open>extends\<close> target.
\<close>

inductive extendsHTMLElement ::
  "('ty, 'sym, 'fn, 'doc) analyzer \<Rightarrow> nat \<Rightarrow> class_like \<Rightarrow> bool" for an where
  direct: "onlyExtends an c (InterfaceDeclaration ''HTMLElement'') \<Longrightarrow>
           extendsHTMLElement an (Suc 0) c"
| step: "onlyExtends an c (ClassLike c') \<Longrightarrow> extendsHTMLElement an n c' \<Longrightarrow>
         extendsHTMLElement an (Suc n) c"

section \<open>Class members\<close>

record member_info =
  infoName :: string
  infoStatic :: bool
  infoPrivacy :: privacy

text \<open>
  The analyzer's \<open>Type\<close>: the compiler's type, its text, and the deferred
  computation of its references. The deferred computation is either the constant empty
  sequence (\<open>None\<close>) or \<open>getReferencesForTypeNode\<close> on the type node and the
  location that it has captured.
\<close>

record 'ty analyzer_type =
  tsType :: 'ty
  typeText :: string
  getReferences :: "(type_node \<times> location) option"

text \<open>
  A \<open>ClassMethod\<close> and a \<open>ClassField\<close>, as the parts that the source spreads
  into the argument of the constructor: the member information, the information about
  the function (of \<open>getFunctionLikeInfo\<close>) or the default and the type, and the
  documentation (of \<open>parseNodeJSDocInfo\<close>).
\<close>

record ('fn, 'doc) class_method =
  methodInfo :: member_info
  methodFunction :: 'fn
  methodDoc :: 'doc

record ('ty, 'doc) class_field =
  fieldInfo :: member_info
  fieldDefault :: "string option"
  fieldType :: "'ty analyzer_type"
  fieldDoc :: 'doc

text \<open>
  The four maps of a class. A \<open>Map\<close> keeps its keys in the order of their first
  insertion and \<open>set\<close> overwrites the value of a key it has: an association list
  under \<open>AList.update\<close>.
\<close>

record ('ty, 'fn, 'doc) class_members =
  fieldMap :: "(string \<times> ('ty, 'doc) class_field) list"
  staticFieldMap :: "(string \<times> ('ty, 'doc) class_field) list"
  methodMap :: "(string \<times> ('fn, 'doc) class_method) list"
  staticMethodMap :: "(string \<times> ('fn, 'doc) class_method) list"

fun elementDecl :: "class_element \<Rightarrow> member_decl option" where
  "elementDecl (MethodDeclaration decl _) = Some decl"
| "elementDecl (PropertyDeclaration decl _) = Some decl"
| "elementDecl OtherClassElement = None"

definition getMemberInfo ::
  "('ty, 'sym, 'fn, 'doc) analyzer \<Rightarrow> class_element \<Rightarrow> member_decl \<Rightarrow> member_info" where
  "getMemberInfo an node decl =
     \<lparr>infoName = getText (memberName decl),
      infoStatic = hasStaticModifier an node,
      infoPrivacy = getPrivacy an node\<rparr>"

definition getTypeForType ::
  "('ty, 'sym, 'fn, 'doc) analyzer \<Rightarrow> 'ty \<Rightarrow> location \<Rightarrow> diagnostic list \<Rightarrow>
   'ty analyzer_type \<times> diagnostic list" where
  "getTypeForType an type location ds =
     (let type' = getBaseTypeOfLiteralType (checker an) type;
          text = typeToString (checker an) type'
      in case typeToTypeNode (checker an) type' location of
           None \<Rightarrow>
             (\<lparr>tsType = type', typeText = text, getReferences = None\<rparr>,
              addDiagnostic
                (createDiagnostic (AtLocation location) ''Could not convert type to type node''
                   (Some Warning) None) ds)
         | Some typeNode \<Rightarrow>
             (\<lparr>tsType = type', typeText = text, getReferences = Some (typeNode, location)\<rparr>, ds))"

definition getTypeForNode ::
  "('ty, 'sym, 'fn, 'doc) analyzer \<Rightarrow> location \<Rightarrow> diagnostic list \<Rightarrow>
   'ty analyzer_type \<times> diagnostic list" where
  "getTypeForNode an node ds =
     getTypeForType an (getTypeAtLocation (checker an) node) node ds"

text \<open>The callback of \<open>declaration.members.forEach\<close> in \<open>getClassMembers\<close>.\<close>

definition addMember ::
  "('ty, 'sym, 'fn, 'doc) analyzer \<Rightarrow> class_element \<Rightarrow>
   ('ty, 'fn, 'doc) class_members \<times> diagnostic list \<Rightarrow>
   ('ty, 'fn, 'doc) class_members \<times> diagnostic list" where
  "addMember an node st =
     (let maps = fst st; ds = snd st
      in case node of
           MethodDeclaration decl body \<Rightarrow>
             if body then
               (let info = getMemberInfo an node decl;
                    name' = getText (memberName decl);
                    fn = getFunctionLikeInfo an node name';
                    doc = parseNodeJSDocInfo an node;
                    method = \<lparr>methodInfo = info, methodFunction = fst fn, methodDoc = fst doc\<rparr>
                in (if infoStatic info
                    then maps\<lparr>staticMethodMap := AList.update name' method (staticMethodMap maps)\<rparr>
                    else maps\<lparr>methodMap := AList.update name' method (methodMap maps)\<rparr>,
                    ds @ snd fn @ snd doc))
             else (maps, ds)
         | PropertyDeclaration decl initializer \<Rightarrow>
             if \<not> isIdentifierName (memberName decl) then
               (maps,
                addDiagnostic
                  (createDiagnostic (AtLocation (memberPos decl))
                     (''@lit-labs/analyzer only supports analyzing class properties '' @
                      ''named with plain identifiers. This property was ignored.'')
                     (Some Warning) (Some UNSUPPORTED)) ds)
             else
               (let info = getMemberInfo an node decl;
                    ty = getTypeForNode an (memberPos decl) ds;
                    doc = parseNodeJSDocInfo an node;
                    field = \<lparr>fieldInfo = info, fieldDefault = initializer,
                             fieldType = fst ty, fieldDoc = fst doc\<rparr>;
                    key = getText (memberName decl)
                in (if infoStatic info
                    then maps\<lparr>staticFieldMap := AList.update key field (staticFieldMap maps)\<rparr>
                    else maps\<lparr>fieldMap := AList.update key field (fieldMap maps)\<rparr>,
                    snd ty @ snd doc))
         | OtherClassElement \<Rightarrow> (maps, ds))"

definition emptyMembers :: "('ty, 'fn, 'doc) class_members" where
  "emptyMembers = \<lparr>fieldMap = [], staticFieldMap = [], methodMap = [], staticMethodMap = []\<rparr>"

definition getClassMembers ::
  "('ty, 'sym, 'fn, 'doc) analyzer \<Rightarrow> class_like \<Rightarrow> diagnostic list \<Rightarrow>
   ('ty, 'fn, 'doc) class_members \<times> diagnostic list" where
  "getClassMembers an declaration ds =
     fold (addMember an) (members declaration) (emptyMembers, ds)"

section \<open>Class declarations\<close>




section \<open>Heritage\<close>

record class_heritage =
  superClass :: "reference option"
  mixins :: "reference list"

definition getSuperClass ::
  "('ty, 'sym, 'fn, 'doc) analyzer \<Rightarrow> expr \<Rightarrow> diagnostic list \<Rightarrow>
   reference option \<times> diagnostic list" where
  "getSuperClass an expression ds =
     (if isIdentifier expression then
        (let r = getReferenceForIdentifier an expression in (fst r, ds @ snd r))
      else
        (None,
         addDiagnostic
           (createDiagnostic (AtExpression expression)
              (''Expected expression to be a concrete superclass. '' @
               ''Mixins are not yet supported.'')
              (Some Warning) (Some UNSUPPORTED)) ds))"

definition getHeritageFromExpression ::
  "('ty, 'sym, 'fn, 'doc) analyzer \<Rightarrow> expr \<Rightarrow> diagnostic list \<Rightarrow>
   class_heritage \<times> diagnostic list" where
  "getHeritageFromExpression an expression ds =
     (let mixins' = [];
          r = getSuperClass an expression ds
      in (\<lparr>superClass = fst r, mixins = mixins'\<rparr>, snd r))"

definition getHeritage ::
  "('ty, 'sym, 'fn, 'doc) analyzer \<Rightarrow> class_like \<Rightarrow> diagnostic list \<Rightarrow>
   class_heritage \<times> diagnostic list" where
  "getHeritage an declaration ds =
     (let extendsClause =
            (case heritageClauses declaration of
               None \<Rightarrow> None
             | Some clauses \<Rightarrow> find (\<lambda>c. token c = ExtendsKeyword) clauses)
      in case extendsClause of
           Some ec \<Rightarrow>
             if length (types ec) = 1 then getHeritageFromExpression an (types ec ! 0) ds
             else
               (\<lparr>superClass = None, mixins = []\<rparr>,
                addDiagnostic
                  (createDiagnostic (AtLocation (clausePos ec))
                     (''Illegal syntax: did not expect extends clause '' @
                      ''to have multiple types'') None None) ds)
         | None \<Rightarrow> (\<lparr>superClass = None, mixins = []\<rparr>, ds))"

section \<open>The scratch compilation service\<close>

text \<open>
  The statements of the synthetic source file, as \<open>forEachChild\<close> visits them.
\<close>

datatype statement = TypeAliasDeclaration type_node | OtherStatement

text \<open>
  The module state of the type resolver: the buffer \<open>contents\<close>, its version
  counter \<open>contentsId\<close>, and what the language service remembers. The service reads
  the buffer through its host: it keeps the source file it parsed last together with the
  version it parsed it at, and parses the buffer again only when the host reports
  another version. \<open>parse\<close> is the compiler's parser.
\<close>

record scratch =
  contents :: string
  contentsId :: nat
  serviceCache :: "(nat \<times> statement list option) option"

definition initialScratch :: scratch where
  "initialScratch = \<lparr>contents = [], contentsId = 0, serviceCache = None\<rparr>"

text \<open>
  \<open>service.getProgram()?.getSourceFileByPath('contents.ts')\<close>: the source file of
  the buffer, parsed now when the version of the buffer is not the one that the service
  has parsed last.
\<close>

definition getSourceFile ::
  "(string \<Rightarrow> statement list option) \<Rightarrow> scratch \<Rightarrow> statement list option \<times> scratch" where
  "getSourceFile parse sc =
     (case serviceCache sc of
        Some (version, sourceFile) \<Rightarrow>
          if version = contentsId sc then (sourceFile, sc)
          else (let sourceFile' = parse (contents sc)
                in (sourceFile', sc\<lparr>serviceCache := Some (contentsId sc, sourceFile')\<rparr>))
      | None \<Rightarrow>
          (let sourceFile' = parse (contents sc)
           in (sourceFile', sc\<lparr>serviceCache := Some (contentsId sc, sourceFile')\<rparr>)))"

text \<open>
  What \<open>parseType\<close> writes to the buffer: the declaration of the type alias
  \<open>typeToParse\<close> as the type string.
\<close>

definition typeAliasSource :: "string \<Rightarrow> string" where
  "typeAliasSource typeString = ''export type typeToParse = '' @ typeString"

definition parseType ::
  "(string \<Rightarrow> statement list option) \<Rightarrow> string \<Rightarrow> scratch \<Rightarrow> type_node option \<times> scratch" where
  "parseType parse typeString sc =
     (let sc1 = sc\<lparr>contents := typeAliasSource typeString\<rparr>;
          sc2 = sc1\<lparr>contentsId := contentsId sc1 + 1\<rparr>;
          r = getSourceFile parse sc2
      in case fst r of
           None \<Rightarrow> (None, snd r)
         | Some sourceFile \<Rightarrow>
             (fold (\<lambda>node typeNode.
                      case node of TypeAliasDeclaration t \<Rightarrow> Some t | _ \<Rightarrow> typeNode)
                   sourceFile None,
              snd r))"

text \<open>
  The service never holds a version that the counter has not reached: true at the
  start, and kept by every call of \<open>parseType\<close>.
\<close>

definition scratchInv :: "scratch \<Rightarrow> bool" where
  "scratchInv sc = (case serviceCache sc of None \<Rightarrow> True | Some c \<Rightarrow> fst c \<le> contentsId sc)"

section \<open>Type resolution\<close>

definition getTypeForTypeString ::
  "(string \<Rightarrow> statement list option) \<Rightarrow> ('ty, 'sym, 'fn, 'doc) analyzer \<Rightarrow>
   string option \<Rightarrow> location \<Rightarrow> scratch \<times> diagnostic list \<Rightarrow>
   'ty analyzer_type option \<times> scratch \<times> diagnostic list" where
  "getTypeForTypeString parse an typeString location st =
     (case typeString of
        Some typeString' \<Rightarrow>
          (let r = parseType parse typeString' (fst st)
           in case fst r of
                None \<Rightarrow>
                  (None, snd r,
                   addDiagnostic
                     (createDiagnostic (AtLocation location)
                        ''Failed to parse type from JSDoc comment.'' (Some Warning) None)
                     (snd st))
              | Some typeNode \<Rightarrow>
                  (Some \<lparr>tsType = getTypeFromTypeNode (checker an) typeNode,
                         typeText = typeString',
                         getReferences = Some (typeNode, location)\<rparr>,
                   snd r, snd st))
      | None \<Rightarrow> (None, fst st, snd st))"

fun getRootName :: "entity_name option \<Rightarrow> string" where
  "getRootName None = []"
| "getRootName (Some (QualifiedName left right)) = getRootName (Some left)"
| "getRootName (Some (EntityIdentifier text)) = text"

definition getSpecifierFromTypeImport ::
  "('ty, 'sym, 'fn, 'doc) analyzer \<Rightarrow> string \<Rightarrow> string" where
  "getSpecifierFromTypeImport an specifier =
     (let specifier' = pathNormalize an (resolveExtension an specifier)
      in if pathIsAbsolute an specifier' then
           (let info = getPackageInfo an specifier';
                modulePath = absoluteToPackage an specifier' (rootDir info);
                packageMain' = (case packageModule info of
                                  Some m \<Rightarrow> Some m
                                | None \<Rightarrow> packageMain info);
                modulePath' = (if packageMain' \<noteq> None \<and> Some modulePath = packageMain'
                               then [] else modulePath)
            in packageName info @ (if modulePath' \<noteq> [] then ''/'' @ modulePath' else []))
         else specifier')"

text \<open>
  The walk of \<open>getReferencesForTypeNode\<close>. \<open>visit\<close> leaves a node without
  looking at its children where the source returns early: at a type reference whose
  name has no symbol, and at an import type whose argument is not a string literal.
\<close>

fun visit ::
  "('ty, 'sym, 'fn, 'doc) analyzer \<Rightarrow> location \<Rightarrow> type_node \<Rightarrow>
   reference list \<times> diagnostic list \<Rightarrow> reference list \<times> diagnostic list" where
  "visit an location (TypeReferenceNode typeName typeArguments) st =
     (let name' = getRootName (Some typeName)
      in case getSymbolForName an name' location of
           None \<Rightarrow>
             (fst st,
              addDiagnostic
                (createDiagnostic (AtLocation location)
                   (''Could not get symbol for '' @ [CHR 0x27] @ name' @ [CHR 0x27] @ ''.'')
                   None None) (snd st))
         | Some symbol \<Rightarrow>
             (let r = getReferenceForSymbol an symbol location;
                  references = (case fst r of Some ref \<Rightarrow> fst st @ [ref] | None \<Rightarrow> fst st)
              in fold (visit an location) typeArguments (references, snd st @ snd r)))"
| "visit an location (ImportTypeNode argument qualifier typeArguments) st =
     (case argument of
        LiteralTypeNode literal \<Rightarrow>
          (let name' = getRootName qualifier
           in case literal of
                StringLiteralNode text \<Rightarrow>
                  (let specifier = getSpecifierFromTypeImport an text;
                       r = getImportReference an specifier literal name'
                   in fold (visit an location) typeArguments
                        (visit an location argument (fst st @ [fst r], snd st @ snd r)))
              | _ \<Rightarrow>
                  (fst st,
                   addDiagnostic
                     (createDiagnostic (AtLiteral literal)
                        ''Expected import specifier to be a string literal'' None None)
                     (snd st)))
      | _ \<Rightarrow>
          (fst st,
           addDiagnostic
             (createDiagnostic (AtTypeNode argument) ''Expected a string literal.'' None None)
             (snd st)))"
| "visit an location (LiteralTypeNode literal) st = st"
| "visit an location (OtherTypeNode children) st = fold (visit an location) children st"

definition getReferencesForTypeNode ::
  "('ty, 'sym, 'fn, 'doc) analyzer \<Rightarrow> type_node \<Rightarrow> location \<Rightarrow> diagnostic list \<Rightarrow>
   reference list \<times> diagnostic list" where
  "getReferencesForTypeNode an typeNode location ds = visit an location typeNode ([], ds)"

text \<open>Running the deferred computation of the references of a \<open>Type\<close>.\<close>

definition callGetReferences ::
  "('ty, 'sym, 'fn, 'doc) analyzer \<Rightarrow> 'ty analyzer_type \<Rightarrow> diagnostic list \<Rightarrow>
   reference list \<times> diagnostic list" where
  "callGetReferences an t ds =
     (case getReferences t of
        None \<Rightarrow> ([], ds)
      | Some c \<Rightarrow> getReferencesForTypeNode an (fst c) (snd c) ds)"

section \<open>What the member maps are compared with\<close>

text \<open>
  The \<open>ClassMethod\<close> that \<open>getClassMembers\<close> builds from a method declaration.
\<close>

definition newClassMethod ::
  "('ty, 'sym, 'fn, 'doc) analyzer \<Rightarrow> class_element \<Rightarrow> member_decl \<Rightarrow> ('fn, 'doc) class_method" where
  "newClassMethod an node decl =
     \<lparr>methodInfo = getMemberInfo an node decl,
      methodFunction = fst (getFunctionLikeInfo an node (getText (memberName decl))),
      methodDoc = fst (parseNodeJSDocInfo an node)\<rparr>"

text \<open>
  The method declarations with an implementation body and of staticness \<open>s\<close>, in
  the order of the class body, each as its name and its \<open>ClassMethod\<close>.
\<close>

fun implementation ::
  "('ty, 'sym, 'fn, 'doc) analyzer \<Rightarrow> bool \<Rightarrow> class_element \<Rightarrow>
   (string \<times> ('fn, 'doc) class_method) list" where
  "implementation an s (MethodDeclaration decl body) =
     (if body \<and> hasStaticModifier an (MethodDeclaration decl body) = s
      then [(getText (memberName decl), newClassMethod an (MethodDeclaration decl body) decl)]
      else [])"
| "implementation an s (PropertyDeclaration decl initializer) = []"
| "implementation an s OtherClassElement = []"

definition implementations ::
  "('ty, 'sym, 'fn, 'doc) analyzer \<Rightarrow> bool \<Rightarrow> class_element list \<Rightarrow>
   (string \<times> ('fn, 'doc) class_method) list" where
  "implementations an s ms = concat (map (implementation an s) ms)"

text \<open>
  The names of the property declarations that are named with an identifier and are of
  staticness \<open>s\<close>, one for each declaration, in the order of the class body.
\<close>

fun fieldName ::
  "('ty, 'sym, 'fn, 'doc) analyzer \<Rightarrow> bool \<Rightarrow> class_element \<Rightarrow> string list" where
  "fieldName an s (PropertyDeclaration decl initializer) =
     (if isIdentifierName (memberName decl)
         \<and> hasStaticModifier an (PropertyDeclaration decl initializer) = s
      then [getText (memberName decl)] else [])"
| "fieldName an s (MethodDeclaration decl body) = []"
| "fieldName an s OtherClassElement = []"

definition fieldNames ::
  "('ty, 'sym, 'fn, 'doc) analyzer \<Rightarrow> bool \<Rightarrow> class_element list \<Rightarrow> string list" where
  "fieldNames an s ms = concat (map (fieldName an s) ms)"

text \<open>
  The diagnostic that \<open>getClassMembers\<close> records for a property declaration whose
  name is not an identifier.
\<close>

definition unsupportedProperty :: "member_decl \<Rightarrow> diagnostic" where
  "unsupportedProperty decl =
     createDiagnostic (AtLocation (memberPos decl))
       (''@lit-labs/analyzer only supports analyzing class properties '' @
        ''named with plain identifiers. This property was ignored.'')
       (Some Warning) (Some UNSUPPORTED)"

text \<open>The diagnostics of \<open>getHeritage\<close> and of \<open>getClassDeclarationName\<close>.\<close>

definition multipleTypes :: "heritage_clause \<Rightarrow> diagnostic" where
  "multipleTypes ec =
     createDiagnostic (AtLocation (clausePos ec))
       (''Illegal syntax: did not expect extends clause '' @ ''to have multiple types'')
       None None"


text \<open>
  The class carries a documentation tag whose name is \<open>customelement\<close> in lower case
  and whose comment is the string \<open>s\<close>.
\<close>

definition hasCustomElementTag :: "class_like \<Rightarrow> string \<Rightarrow> bool" where
  "hasCustomElementTag c s =
     list_ex (\<lambda>tag. toLowerCase (tagName tag) = ''customelement'' \<and> comment tag = CommentString s)
       (jsDocTags c)"

text \<open>
  A sibling of the class is a call \<open>customElements.define(t, C)\<close> for the class:
  the callback of \<open>getTagName\<close> takes the tag name \<open>t\<close> from it.
\<close>

definition hasDefineCall :: "class_like \<Rightarrow> string \<Rightarrow> bool" where
  "hasDefineCall c t = list_ex (\<lambda>child. defineCall c child None = Some t) (parentChildren c)"

text \<open>
  The type alias that \<open>parseType\<close> finds in a source file (the last one), and the
  type node of a type string: the one found in the parse of the template.
\<close>

definition typeAliasOf :: "statement list \<Rightarrow> type_node option" where
  "typeAliasOf sourceFile =
     fold (\<lambda>node typeNode. case node of TypeAliasDeclaration t \<Rightarrow> Some t | _ \<Rightarrow> typeNode)
       sourceFile None"

definition parsedType :: "(string \<Rightarrow> statement list option) \<Rightarrow> string \<Rightarrow> type_node option" where
  "parsedType parse typeString =
     (case parse (typeAliasSource typeString) of
        None \<Rightarrow> None
      | Some sourceFile \<Rightarrow> typeAliasOf sourceFile)"









section \<open>An example program\<close>

text \<open>
  A small program and an analyzer for it, on which the theorems below are run. The
  compiler's types are written as their texts. The program holds
  \<open>class A extends HTMLElement\<close>, \<open>class B extends A\<close> and
  \<open>class C extends B\<close> at the positions 1, 2 and 3, and a field \<open>bar = 'hi'\<close>
  at position 10; the interface \<open>HTMLElement\<close> is declared together with a
  variable of the same name, as the DOM library declares it.
\<close>

definition hiLiteralType :: string where
  "hiLiteralType = [CHR 0x22] @ ''hi'' @ [CHR 0x22]"

definition hiTypeString :: string where
  "hiTypeString = [CHR 0x27] @ ''hi'' @ [CHR 0x27]"

definition classA :: class_like where
  "classA = \<lparr>classPos = 1, className = Some ''A'', classModifiers = [], jsDocTags = [],
     parentChildren = [OtherChild],
     heritageClauses = Some [\<lparr>clausePos = 11, token = ExtendsKeyword,
                              types = [Identifier ''HTMLElement'']\<rparr>],
     members = []\<rparr>"

definition classB :: class_like where
  "classB = \<lparr>classPos = 2, className = Some ''B'', classModifiers = [], jsDocTags = [],
     parentChildren = [OtherChild],
     heritageClauses = Some [\<lparr>clausePos = 12, token = ExtendsKeyword,
                              types = [Identifier ''A'']\<rparr>],
     members = []\<rparr>"

definition classC :: class_like where
  "classC = \<lparr>classPos = 3, className = Some ''C'', classModifiers = [], jsDocTags = [],
     parentChildren = [OtherChild],
     heritageClauses = Some [\<lparr>clausePos = 13, token = ExtendsKeyword,
                              types = [Identifier ''B'']\<rparr>],
     members = []\<rparr>"

definition exampleTypeAt :: "location \<Rightarrow> string" where
  "exampleTypeAt l =
     (if l = 1 then ''A'' else if l = 2 then ''B'' else if l = 3 then ''C''
      else if l = 10 then hiLiteralType else ''any'')"

definition exampleBaseTypes :: "string \<Rightarrow> string list" where
  "exampleBaseTypes t =
     (if t = ''A'' then [''HTMLElement''] else if t = ''B'' then [''A'']
      else if t = ''C'' then [''B''] else [])"

definition exampleDeclarations :: "string \<Rightarrow> node list option" where
  "exampleDeclarations t =
     (if t = ''HTMLElement'' then Some [InterfaceDeclaration ''HTMLElement'', OtherNode]
      else if t = ''A'' then Some [ClassLike classA]
      else if t = ''B'' then Some [ClassLike classB]
      else if t = ''C'' then Some [ClassLike classC]
      else None)"

definition exampleTypeFromTypeNode :: "type_node \<Rightarrow> string" where
  "exampleTypeFromTypeNode n =
     (case n of
        LiteralTypeNode (StringLiteralNode s) \<Rightarrow> [CHR 0x22] @ s @ [CHR 0x22]
      | TypeReferenceNode (EntityIdentifier s) _ \<Rightarrow> s
      | _ \<Rightarrow> ''any'')"

definition exampleChecker :: "string type_checker" where
  "exampleChecker =
     \<lparr>getTypeAtLocation = exampleTypeAt,
      getBaseTypes = exampleBaseTypes,
      getSymbolDeclarations = exampleDeclarations,
      getBaseTypeOfLiteralType = (\<lambda>t. if t = hiLiteralType then ''string'' else t),
      typeToString = (\<lambda>t. t),
      typeToTypeNode = (\<lambda>t l. Some (OtherTypeNode [])),
      getTypeFromTypeNode = exampleTypeFromTypeNode\<rparr>"

definition exampleIsAbsolute :: "string \<Rightarrow> bool" where
  "exampleIsAbsolute p = (case p of [] \<Rightarrow> False | c # _ \<Rightarrow> c = CHR ''/'')"

definition exampleIsStatic :: "class_element \<Rightarrow> bool" where
  "exampleIsStatic m =
     (case elementDecl m of Some d \<Rightarrow> StaticKeyword \<in> set (memberModifiers d) | None \<Rightarrow> False)"

definition examplePrivacy :: "class_element \<Rightarrow> privacy" where
  "examplePrivacy m =
     (case elementDecl m of
        Some d \<Rightarrow> if PrivateKeyword \<in> set (memberModifiers d) then Private
                  else if ProtectedKeyword \<in> set (memberModifiers d) then Protected
                  else Public
      | None \<Rightarrow> Public)"

definition examplePosition :: "class_element \<Rightarrow> location" where
  "examplePosition m = (case elementDecl m of Some d \<Rightarrow> memberPos d | None \<Rightarrow> 0)"

text \<open>
  The package of the example has its root at \<open>/pkg\<close>, the name \<open>my-pkg\<close>
  and the main entry \<open>index.js\<close>. The function-like information and the
  documentation of a member are stood for by the position of the member.
\<close>

definition exampleAnalyzer :: "(string, string, location, location) analyzer" where
  "exampleAnalyzer =
     \<lparr>checker = exampleChecker,
      pathNormalize = (\<lambda>p. p),
      pathIsAbsolute = exampleIsAbsolute,
      resolveExtension = (\<lambda>p. p),
      getPackageInfo = (\<lambda>p. \<lparr>rootDir = ''/pkg'', packageName = ''my-pkg'',
                              packageMain = Some ''index.js'', packageModule = None\<rparr>),
      absoluteToPackage = (\<lambda>p root. drop (Suc (length root)) p),
      getSymbolForName = (\<lambda>n l. if n = ''Foo'' then Some n else None),
      getReferenceForSymbol = (\<lambda>s l. (Some \<lparr>refName = s, refModule = None\<rparr>, [])),
      getImportReference = (\<lambda>s l n. (\<lparr>refName = n, refModule = Some s\<rparr>, [])),
      getReferenceForIdentifier = (\<lambda>e. (Some \<lparr>refName = exprText e, refModule = None\<rparr>, [])),
      hasStaticModifier = exampleIsStatic,
      getPrivacy = examplePrivacy,
      hasDefaultModifier = (\<lambda>c. DefaultKeyword \<in> set (classModifiers c)),
      hasExportModifier = (\<lambda>c. ExportKeyword \<in> set (classModifiers c)),
      getFunctionLikeInfo = (\<lambda>m n. (examplePosition m, [])),
      parseNodeJSDocInfo = (\<lambda>m. (examplePosition m, []))\<rparr>"

text \<open>The example's parser of the scratch file.\<close>

definition exampleParse :: "string \<Rightarrow> statement list option" where
  "exampleParse c =
     (if c = typeAliasSource hiTypeString
      then Some [TypeAliasDeclaration (LiteralTypeNode (StringLiteralNode ''hi''))]
      else if c = typeAliasSource ''Foo''
      then Some [TypeAliasDeclaration (TypeReferenceNode (EntityIdentifier ''Foo'') [])]
      else Some [OtherStatement])"

subsection \<open>Classes with documentation tags and define calls\<close>

definition defineXBar :: child_node where
  "defineXBar = ExpressionStatement
     (CallExpression
        (PropertyAccessExpression (Identifier ''customElements'') (Identifier ''define''))
        [StringLiteral ''x-bar'', Identifier ''XFoo''])"

text \<open>
  \<open>/** @customElement\<close> (no comment) \<open>@customElement x-foo */ class XFoo\<close>,
  followed by \<open>customElements.define('x-bar', XFoo)\<close>.
\<close>

definition twoTagsClass :: class_like where
  "twoTagsClass = \<lparr>classPos = 20, className = Some ''XFoo'', classModifiers = [],
     jsDocTags = [\<lparr>tagName = ''customElement'', comment = CommentUndefined\<rparr>,
                  \<lparr>tagName = ''customElement'', comment = CommentString ''x-foo''\<rparr>],
     parentChildren = [OtherChild, defineXBar],
     heritageClauses = None, members = []\<rparr>"

text \<open>
  A first tag \<open>@CustomElement\<close> whose comment holds an inline link, a second tag
  \<open>@CUSTOMELEMENT x-foo\<close>, and no define call.
\<close>

definition linkedTagClass :: class_like where
  "linkedTagClass = \<lparr>classPos = 21, className = Some ''XFoo'', classModifiers = [],
     jsDocTags = [\<lparr>tagName = ''CustomElement'', comment = CommentNodes\<rparr>,
                  \<lparr>tagName = ''CUSTOMELEMENT'', comment = CommentString ''x-foo''\<rparr>],
     parentChildren = [OtherChild],
     heritageClauses = None, members = []\<rparr>"

definition summaryTag :: jsdoc_tag where
  "summaryTag = \<lparr>tagName = ''summary'', comment = CommentString ''An element''\<rparr>"

definition mixedCaseTag :: jsdoc_tag where
  "mixedCaseTag = \<lparr>tagName = ''CustomElement'', comment = CommentString '' x-foo ''\<rparr>"

definition upperCaseTag :: jsdoc_tag where
  "upperCaseTag = \<lparr>tagName = ''CUSTOMELEMENT'', comment = CommentString ''x-baz''\<rparr>"

text \<open>
  \<open>/** @summary An element\<close>, \<open>@CustomElement x-foo */ class XFoo\<close>, followed by
  \<open>customElements.define('x-bar', XFoo)\<close>; and a class with the one tag
  \<open>@CUSTOMELEMENT x-baz\<close>.
\<close>

definition taggedClass :: class_like where
  "taggedClass = \<lparr>classPos = 22, className = Some ''XFoo'', classModifiers = [],
     jsDocTags = [summaryTag, mixedCaseTag],
     parentChildren = [OtherChild, defineXBar],
     heritageClauses = None, members = []\<rparr>"

definition upperCaseClass :: class_like where
  "upperCaseClass = \<lparr>classPos = 23, className = Some ''XBaz'', classModifiers = [],
     jsDocTags = [upperCaseTag],
     parentChildren = [OtherChild],
     heritageClauses = None, members = []\<rparr>"

subsection \<open>Classes with unusual heritage and names\<close>

definition implementsClause :: heritage_clause where
  "implementsClause = \<lparr>clausePos = 31, token = ImplementsKeyword, types = [Identifier ''I'']\<rparr>"

definition twoExtendsTypes :: heritage_clause where
  "twoExtendsTypes = \<lparr>clausePos = 32, token = ExtendsKeyword,
                       types = [Identifier ''A'', Identifier ''B'']\<rparr>"

definition twoTypesClass :: class_like where
  "twoTypesClass = \<lparr>classPos = 30, className = Some ''D'', classModifiers = [],
     jsDocTags = [], parentChildren = [OtherChild],
     heritageClauses = Some [implementsClause, twoExtendsTypes],
     members = []\<rparr>"



subsection \<open>Classes with members\<close>

definition barField :: class_element where
  "barField = PropertyDeclaration
     \<lparr>memberPos = 10, memberName = NameIdentifier ''bar'', memberModifiers = []\<rparr>
     (Some hiTypeString)"

definition barClass :: class_like where
  "barClass = \<lparr>classPos = 50, className = Some ''Foo'', classModifiers = [],
     jsDocTags = [], parentChildren = [OtherChild], heritageClauses = None,
     members = [barField]\<rparr>"

definition fieldX :: class_element where
  "fieldX = PropertyDeclaration
     \<lparr>memberPos = 60, memberName = NameIdentifier ''x'', memberModifiers = []\<rparr> (Some ''1'')"

definition computedDecl :: member_decl where
  "computedDecl = \<lparr>memberPos = 61, memberName = ComputedPropertyName ''[key]'',
                    memberModifiers = []\<rparr>"

definition fieldY :: class_element where
  "fieldY = PropertyDeclaration
     \<lparr>memberPos = 62, memberName = NameIdentifier ''y'', memberModifiers = [StaticKeyword]\<rparr>
     None"

definition fieldX2 :: class_element where
  "fieldX2 = PropertyDeclaration
     \<lparr>memberPos = 63, memberName = NameIdentifier ''x'', memberModifiers = []\<rparr> (Some ''2'')"

text \<open>\<open>class Fields { x = 1; [key] = 2; static y; }\<close>\<close>

definition fieldsClass :: class_like where
  "fieldsClass = \<lparr>classPos = 6, className = Some ''Fields'', classModifiers = [],
     jsDocTags = [], parentChildren = [OtherChild], heritageClauses = None,
     members = [fieldX, PropertyDeclaration computedDecl (Some ''2''), fieldY]\<rparr>"

text \<open>\<open>class Twice { x = 1; x = 2; }\<close>\<close>

definition duplicateFieldsClass :: class_like where
  "duplicateFieldsClass = \<lparr>classPos = 7, className = Some ''Twice'', classModifiers = [],
     jsDocTags = [], parentChildren = [OtherChild], heritageClauses = None,
     members = [fieldX, fieldX2]\<rparr>"

definition fooDecl :: "location \<Rightarrow> member_decl" where
  "fooDecl l = \<lparr>memberPos = l, memberName = NameIdentifier ''foo'', memberModifiers = []\<rparr>"

text \<open>Two overload signatures of \<open>foo\<close> and its implementation.\<close>

definition overloadedClass :: class_like where
  "overloadedClass = \<lparr>classPos = 8, className = Some ''Overloaded'', classModifiers = [],
     jsDocTags = [], parentChildren = [OtherChild], heritageClauses = None,
     members = [MethodDeclaration (fooDecl 80) False, MethodDeclaration (fooDecl 81) False,
                MethodDeclaration (fooDecl 82) True]\<rparr>"

subsection \<open>Resolving the type string \<open>Foo\<close> twice\<close>

definition fooType :: "string analyzer_type" where
  "fooType = \<lparr>tsType = ''Foo'', typeText = ''Foo'',
     getReferences = Some (TypeReferenceNode (EntityIdentifier ''Foo'') [], 10)\<rparr>"

definition afterOne :: scratch where
  "afterOne = \<lparr>contents = typeAliasSource ''Foo'', contentsId = 1,
     serviceCache = Some (1, exampleParse (typeAliasSource ''Foo''))\<rparr>"

definition afterTwo :: scratch where
  "afterTwo = \<lparr>contents = typeAliasSource ''Foo'', contentsId = 2,
     serviceCache = Some (2, exampleParse (typeAliasSource ''Foo''))\<rparr>"

subsection \<open>A mixin application, a type without a type node, other manifests\<close>




text \<open>The analyzer of the example with a checker that prints no type as a type node.\<close>

definition unprintableAnalyzer :: "(string, string, location, location) analyzer" where
  "unprintableAnalyzer =
     exampleAnalyzer\<lparr>checker := exampleChecker\<lparr>typeToTypeNode := (\<lambda>t l. None)\<rparr>\<rparr>"



section \<open>The classifier follows inheritance\<close>

lemma someOf_hit:
  "x \<in> set xs \<Longrightarrow> f x = Some True \<Longrightarrow> \<forall>y\<in>set xs. f y \<noteq> None \<Longrightarrow> someOf f xs = Some True"
proof (induction xs)
  case Nil
  then show ?case by simp
next
  case (Cons a xs)
  then show ?case by (cases "f a") (auto split: bool.splits)
qed

text \<open>
  One level: when the only \<open>extends\<close> target \<open>d\<close> of \<open>c\<close> passes the test that
  \<open>_isCustomElementClassDeclaration\<close> applies to a declaration, \<open>c\<close> is classified
  as a custom element with one more unit of fuel.
\<close>

lemma onlyExtends_true:
  assumes oe: "onlyExtends an c d"
    and hit: "(case d of InterfaceDeclaration name' \<Rightarrow>
                 if name' = ''HTMLElement'' then Some True else isCustomElementSubclass (Suc k) an d
               | _ \<Rightarrow> isCustomElementSubclass (Suc k) an d) = Some True"
  shows "isCustomElementSubclass (Suc (Suc k)) an (ClassLike c) = Some True"
proof (cases "getTagName c")
  case (Some a)
  then show ?thesis by simp
next
  case None
  from oe obtain t ds
    where bt: "getBaseTypes (checker an) (getTypeAtLocation (checker an) (classPos c)) = [t]"
      and ds: "getSymbolDeclarations (checker an) t = Some ds"
      and mem: "d \<in> set ds" and others: "\<forall>d'\<in>set ds. d' = d \<or> \<not> isClassLike d'"
    by (auto simp: onlyExtends_def list_all_iff split: list.splits option.splits)
  let ?f = "\<lambda>declaration. case declaration of
              InterfaceDeclaration name' \<Rightarrow>
                if name' = ''HTMLElement'' then Some True
                else isCustomElementSubclass (Suc k) an declaration
            | _ \<Rightarrow> isCustomElementSubclass (Suc k) an declaration"
  have "\<forall>y\<in>set ds. ?f y \<noteq> None"
  proof
    fix y assume "y \<in> set ds"
    with others have "y = d \<or> \<not> isClassLike y" by blast
    then show "?f y \<noteq> None"
    proof
      assume yd: "y = d"
      show ?thesis unfolding yd using hit by (simp del: isCustomElementSubclass.simps)
    next
      assume "\<not> isClassLike y"
      then show ?thesis by (cases y) auto
    qed
  qed
  with mem hit have "someOf ?f ds = Some True"
    by (intro someOf_hit[where x = d]) auto
  with None bt ds show ?thesis
    by (simp add: isCustomElementClassDeclaration_def)
qed

lemma extendsHTMLElement_true:
  "extendsHTMLElement an n c \<Longrightarrow>
   isCustomElementSubclass (Suc n + k) an (ClassLike c) = Some True"
proof (induction arbitrary: k rule: extendsHTMLElement.induct)
  case (direct c)
  then show ?case
    using onlyExtends_true[of an c "InterfaceDeclaration ''HTMLElement''" k] by simp
next
  case (step c c' n)
  from step.IH[of k]
  have "isCustomElementSubclass (Suc (n + k)) an (ClassLike c') = Some True" by simp
  with step.hyps(1) show ?case
    using onlyExtends_true[of an c "ClassLike c'" "n + k"] by simp
qed

text \<open>
  C1. A class whose only \<open>extends\<close> target is a class that extends the interface
  \<open>HTMLElement\<close> through \<open>n\<close> levels of inheritance is classified as a custom
  element: with \<open>n + 2\<close> units of fuel or more, \<open>isCustomElementSubclass\<close>
  returns true. The depth \<open>n\<close> is any number; a chain has at least one level.
\<close>

theorem isCustomElementSubclass_transitive:
  assumes "onlyExtends an c (ClassLike c')"
    and "extendsHTMLElement an n c'"
  shows "isCustomElementSubclass (Suc (Suc n) + k) an (ClassLike c) = Some True"
  using extendsHTMLElement_true[OF extendsHTMLElement.step[OF assms], of k] by simp

lemma exampleChecker_simps [simp]:
  "getTypeAtLocation (checker exampleAnalyzer) = exampleTypeAt"
  "getBaseTypes (checker exampleAnalyzer) = exampleBaseTypes"
  "getSymbolDeclarations (checker exampleAnalyzer) = exampleDeclarations"
  by (simp_all add: exampleAnalyzer_def exampleChecker_def)

lemma classC_onlyExtends: "onlyExtends exampleAnalyzer classC (ClassLike classB)"
  by (simp add: onlyExtends_def exampleTypeAt_def exampleBaseTypes_def
      exampleDeclarations_def classC_def)

lemma classB_onlyExtends: "onlyExtends exampleAnalyzer classB (ClassLike classA)"
  by (simp add: onlyExtends_def exampleTypeAt_def exampleBaseTypes_def
      exampleDeclarations_def classB_def)

lemma classA_onlyExtends:
  "onlyExtends exampleAnalyzer classA (InterfaceDeclaration ''HTMLElement'')"
  by (simp add: onlyExtends_def exampleTypeAt_def exampleBaseTypes_def
      exampleDeclarations_def classA_def)

theorem isCustomElementSubclass_transitive_witness:
  "onlyExtends exampleAnalyzer classC (ClassLike classB)
   \<and> extendsHTMLElement exampleAnalyzer 2 classB
   \<and> isCustomElementSubclass 4 exampleAnalyzer (ClassLike classC) = Some True"
proof -
  have b: "extendsHTMLElement exampleAnalyzer 2 classB"
    using extendsHTMLElement.step[OF classB_onlyExtends
        extendsHTMLElement.direct[OF classA_onlyExtends]]
    by (simp add: numeral_2_eq_2)
  from isCustomElementSubclass_transitive[OF classC_onlyExtends b, of 0]
    classC_onlyExtends b
  show ?thesis by (simp add: numeral_eq_Suc)
qed

section \<open>Tag names\<close>

lemma toLowerCase_simps [simp]:
  "toLowerCase [] = []"
  "toLowerCase (c # cs) = toLowerCaseChar c # toLowerCase cs"
  by (simp_all add: toLowerCase_def)

lemma find_first:
  "\<forall>t\<in>set before. \<not> P t \<Longrightarrow> P x \<Longrightarrow> find P (before @ x # after) = Some x"
  by (induction before) auto

text \<open>
  C2, as it is written, fails: on \<open>twoTagsClass\<close> the class has a documentation tag
  \<open>@customElement\<close> with the string comment \<open>x-foo\<close> and a define call with the
  other tag name \<open>x-bar\<close>, and \<open>getTagName\<close> returns \<open>x-bar\<close>: the tag that
  \<open>find\<close> returns is the first \<open>@customElement\<close> tag, which has no comment.
\<close>

theorem getTagName_define_wins_counterexample:
  "hasCustomElementTag twoTagsClass ''x-foo'' \<and> hasDefineCall twoTagsClass ''x-bar''
   \<and> ''x-bar'' \<noteq> trim ''x-foo'' \<and> getTagName twoTagsClass = Some ''x-bar''"
  by code_simp

text \<open>
  C2, amended. When the first documentation tag of the class whose name is
  \<open>customelement\<close> in lower case has a string comment \<open>s\<close>, and a sibling define call
  for the class names another tag \<open>t\<close>, \<open>getTagName\<close> returns \<open>s\<close> trimmed, and
  not \<open>t\<close>: the documentation tag wins.
\<close>

theorem getTagName_documentation_tag_wins:
  assumes "jsDocTags c = before @ tag # after"
    and "\<forall>t\<in>set before. toLowerCase (tagName t) \<noteq> ''customelement''"
    and "toLowerCase (tagName tag) = ''customelement''"
    and "comment tag = CommentString s"
    and "hasDefineCall c t" and "t \<noteq> trim s"
  shows "getTagName c = Some (trim s) \<and> getTagName c \<noteq> Some t"
  using find_first[of before "\<lambda>t. toLowerCase (tagName t) = ''customelement''" tag after] assms
  by (simp add: getTagName_def)

theorem getTagName_documentation_tag_wins_witness:
  "jsDocTags taggedClass = [summaryTag] @ mixedCaseTag # []
   \<and> toLowerCase (tagName summaryTag) \<noteq> ''customelement''
   \<and> toLowerCase (tagName mixedCaseTag) = ''customelement''
   \<and> comment mixedCaseTag = CommentString '' x-foo ''
   \<and> hasDefineCall taggedClass ''x-bar''
   \<and> getTagName taggedClass = Some ''x-foo''"
proof -
  have 1: "jsDocTags taggedClass = [summaryTag] @ mixedCaseTag # []"
    by (simp add: taggedClass_def)
  have 2: "toLowerCase (tagName summaryTag) \<noteq> ''customelement''"
    by code_simp
  have 3: "toLowerCase (tagName mixedCaseTag) = ''customelement''"
    by code_simp
  have 4: "comment mixedCaseTag = CommentString '' x-foo ''"
    by (simp add: mixedCaseTag_def)
  have 5: "hasDefineCall taggedClass ''x-bar''"
    by (simp add: hasDefineCall_def taggedClass_def defineXBar_def defineCall_def)
  have 6: "trim '' x-foo '' = ''x-foo''"
    by (simp add: trim_def isWhiteSpace_def)
  have 7: "''x-bar'' \<noteq> trim '' x-foo ''"
    by (simp add: 6)
  have "\<forall>t\<in>set [summaryTag]. toLowerCase (tagName t) \<noteq> ''customelement''"
    using 2 by simp
  from getTagName_documentation_tag_wins[OF 1 this 3 4 5 7] 1 2 3 4 5 6
  show ?thesis by simp
qed

text \<open>
  C10, as it is written, fails: \<open>linkedTagClass\<close> carries the tag
  \<open>@CUSTOMELEMENT x-foo\<close>, whose name is \<open>customelement\<close> in lower case and whose
  comment is a string, and \<open>getTagName\<close> returns nothing: the first matching tag,
  \<open>@CustomElement\<close>, has a comment that is not a string, and no later tag is looked at.
\<close>

theorem getTagName_later_tag_counterexample:
  "hasCustomElementTag linkedTagClass ''x-foo'' \<and> getTagName linkedTagClass = None"
  by code_simp

text \<open>
  C10, amended. \<open>getTagName\<close> matches the documentation tag without regard to case,
  and it is the first matching tag that decides: when the first tag whose name equals
  \<open>customelement\<close> in lower case has a string comment, \<open>getTagName\<close> returns that
  comment trimmed; when its comment is not a string, the result is that of the scan for
  a define call.
\<close>

theorem getTagName_case_insensitive:
  assumes "jsDocTags c = before @ tag # after"
    and "\<forall>t\<in>set before. toLowerCase (tagName t) \<noteq> ''customelement''"
    and "toLowerCase (tagName tag) = ''customelement''"
  shows "getTagName c =
           (case comment tag of
              CommentString s \<Rightarrow> Some (trim s)
            | _ \<Rightarrow> fold (defineCall c) (parentChildren c) None)"
  using find_first[of before "\<lambda>t. toLowerCase (tagName t) = ''customelement''" tag after] assms
  by (simp add: getTagName_def split: jsdoc_comment.splits)

theorem getTagName_case_insensitive_witness:
  "jsDocTags upperCaseClass = [] @ upperCaseTag # []
   \<and> toLowerCase (tagName upperCaseTag) = ''customelement''
   \<and> comment upperCaseTag = CommentString ''x-baz''
   \<and> getTagName upperCaseClass = Some ''x-baz''"
proof -
  have 1: "jsDocTags upperCaseClass = [] @ upperCaseTag # []"
    by (simp add: upperCaseClass_def)
  have 2: "toLowerCase (tagName upperCaseTag) = ''customelement''"
    by code_simp
  have 3: "comment upperCaseTag = CommentString ''x-baz''"
    by (simp add: upperCaseTag_def)
  have 4: "trim ''x-baz'' = ''x-baz''"
    by (simp add: trim_def isWhiteSpace_def)
  have "\<forall>t\<in>set []. toLowerCase (tagName t) \<noteq> ''customelement''"
    by simp
  from getTagName_case_insensitive[OF 1 this 2] 1 2 3 4
  show ?thesis by simp
qed

section \<open>Heritage\<close>

text \<open>
  C3. The \<open>extends\<close> clause of a class is the first of its heritage clauses with the
  \<open>extends\<close> keyword (the one that \<open>getHeritage\<close> finds; the grammar has at most
  one). When it lists exactly two type expressions, \<open>getHeritage\<close> returns an absent
  superclass and no mixins, and it appends exactly one diagnostic.
\<close>

theorem getHeritage_two_types:
  assumes "heritageClauses d = Some (before @ ec # after)"
    and "\<forall>c\<in>set before. token c \<noteq> ExtendsKeyword"
    and "token ec = ExtendsKeyword"
    and "length (types ec) = 2"
  shows "getHeritage an d ds = (\<lparr>superClass = None, mixins = []\<rparr>, ds @ [multipleTypes ec])
         \<and> length (snd (getHeritage an d ds)) = Suc (length ds)"
  using find_first[of before "\<lambda>c. token c = ExtendsKeyword" ec after] assms
  by (simp add: getHeritage_def multipleTypes_def addDiagnostic_def)

theorem getHeritage_two_types_witness:
  "heritageClauses twoTypesClass = Some ([implementsClause] @ twoExtendsTypes # [])
   \<and> token implementsClause \<noteq> ExtendsKeyword
   \<and> token twoExtendsTypes = ExtendsKeyword
   \<and> length (types twoExtendsTypes) = 2
   \<and> getHeritage exampleAnalyzer twoTypesClass [] =
       (\<lparr>superClass = None, mixins = []\<rparr>, [multipleTypes twoExtendsTypes])"
proof -
  have 1: "heritageClauses twoTypesClass = Some ([implementsClause] @ twoExtendsTypes # [])"
    by (simp add: twoTypesClass_def)
  have 2: "token implementsClause \<noteq> ExtendsKeyword"
    by (simp add: implementsClause_def)
  have 3: "token twoExtendsTypes = ExtendsKeyword"
    by (simp add: twoExtendsTypes_def)
  have 4: "length (types twoExtendsTypes) = 2"
    by (simp add: twoExtendsTypes_def)
  have "\<forall>c\<in>set [implementsClause]. token c \<noteq> ExtendsKeyword"
    using 2 by simp
  from getHeritage_two_types[OF 1 this 3 4, of exampleAnalyzer "[]"] 1 2 3 4
  show ?thesis by simp
qed

section \<open>Import specifiers\<close>

lemma exampleAnalyzer_path_simps [simp]:
  "pathNormalize exampleAnalyzer p = p"
  "resolveExtension exampleAnalyzer p = p"
  "pathIsAbsolute exampleAnalyzer = exampleIsAbsolute"
  "getPackageInfo exampleAnalyzer p = \<lparr>rootDir = ''/pkg'', packageName = ''my-pkg'',
                              packageMain = Some ''index.js'', packageModule = None\<rparr>"
  "absoluteToPackage exampleAnalyzer p root = drop (Suc (length root)) p"
  by (simp_all add: exampleAnalyzer_def)




section \<open>The scratch service parses afresh\<close>

text \<open>
  Under the invariant, the version that \<open>parseType\<close> reports to the service is new
  to it, so the service parses the buffer that \<open>parseType\<close> has just written.
\<close>

lemma parseType_fresh:
  assumes "scratchInv sc"
  shows "parseType parse s sc =
           (parsedType parse s,
            \<lparr>contents = typeAliasSource s,
             contentsId = Suc (contentsId sc),
             serviceCache = Some (Suc (contentsId sc), parse (typeAliasSource s))\<rparr>)"
  using assms
  by (cases "serviceCache sc")
     (auto simp: parseType_def getSourceFile_def scratchInv_def parsedType_def typeAliasOf_def
           Let_def split: option.splits prod.splits)

lemma parseType_inv:
  "scratchInv sc \<Longrightarrow> scratchInv (snd (parseType parse s sc))"
  by (simp add: parseType_fresh) (simp add: scratchInv_def)

lemma initialScratch_inv: "scratchInv initialScratch"
  by (simp add: scratchInv_def initialScratch_def)

lemma initialScratch_id: "contentsId initialScratch = 0"
  by (simp add: initialScratch_def)

lemma getTypeForTypeString_result:
  assumes "scratchInv sc"
  shows "fst (getTypeForTypeString parse an (Some s) location (sc, ds)) =
           map_option (\<lambda>n. \<lparr>tsType = getTypeFromTypeNode (checker an) n, typeText = s,
                            getReferences = Some (n, location)\<rparr>) (parsedType parse s)"
    and "fst (snd (getTypeForTypeString parse an (Some s) location (sc, ds))) =
           snd (parseType parse s sc)"
  using assms
  by (auto simp: getTypeForTypeString_def parseType_fresh Let_def split: option.splits)

section \<open>References do not depend on the diagnostics\<close>

lemma fold_fst_indep:
  assumes "\<And>x st ds'. x \<in> set xs \<Longrightarrow> fst (f x st) = fst (f x (fst st, ds'))"
  shows "fst (fold f xs st) = fst (fold f xs (fst st, ds'))"
  using assms
proof (induction xs arbitrary: st ds')
  case Nil
  then show ?case by simp
next
  case (Cons x xs)
  let ?A = "f x st" and ?B = "f x (fst st, ds')"
  have eq: "fst ?A = fst ?B"
    using Cons.prems[of x st ds'] by simp
  have "fst (fold f xs ?A) = fst (fold f xs (fst ?A, snd ?B))"
    using Cons.IH[of ?A "snd ?B"] Cons.prems by simp
  also have "(fst ?A, snd ?B) = ?B"
    unfolding eq by simp
  finally show ?case by simp
qed

lemma visit_fst_indep:
  "fst (visit an location n st) = fst (visit an location n (fst st, ds'))"
proof (induction an location n st arbitrary: ds' rule: visit.induct)
  case (1 an location typeName typeArguments st)
  show ?case
  proof (cases "getSymbolForName an (getRootName (Some typeName)) location")
    case None
    then show ?thesis by simp
  next
    case (Some symbol)
    let ?r = "getReferenceForSymbol an symbol location"
    let ?refs = "case fst ?r of Some ref \<Rightarrow> fst st @ [ref] | None \<Rightarrow> fst st"
    have "fst (fold (visit an location) typeArguments (?refs, snd st @ snd ?r)) =
          fst (fold (visit an location) typeArguments (?refs, ds' @ snd ?r))"
      using fold_fst_indep[of typeArguments "visit an location"
          "(?refs, snd st @ snd ?r)" "ds' @ snd ?r"]
        "1.IH"[OF refl Some refl refl]
      by simp
    with Some show ?thesis by (cases "fst ?r") (simp_all add: Let_def)
  qed
next
  case (2 an location argument qualifier typeArguments st)
  show ?case
  proof (cases argument)
    case (LiteralTypeNode literal)
    show ?thesis
    proof (cases literal)
      case (StringLiteralNode str)
      let ?r = "getImportReference an (getSpecifierFromTypeImport an str) literal
                  (getRootName qualifier)"
      have "fst (fold (visit an location) typeArguments (fst st @ [fst ?r], snd st @ snd ?r)) =
            fst (fold (visit an location) typeArguments (fst st @ [fst ?r], ds' @ snd ?r))"
        using fold_fst_indep[of typeArguments "visit an location"
            "(fst st @ [fst ?r], snd st @ snd ?r)" "ds' @ snd ?r"]
          "2.IH"(2)[OF LiteralTypeNode refl StringLiteralNode refl refl]
        by simp
      with LiteralTypeNode StringLiteralNode show ?thesis by (simp add: Let_def)
    next
      case OtherLiteralNode
      with LiteralTypeNode show ?thesis by simp
    qed
  qed simp_all
next
  case (3 an location literal st)
  then show ?case by simp
next
  case (4 an location children st)
  then show ?case
    using fold_fst_indep[of children "visit an location" st ds'] by simp
qed

lemma callGetReferences_indep:
  "fst (callGetReferences an t ds) = fst (callGetReferences an t ds')"
  using visit_fst_indep[of an _ _ "([], ds)" ds']
  by (simp add: callGetReferences_def getReferencesForTypeNode_def split: option.splits)

section \<open>Resolving a type string twice\<close>

text \<open>
  C8. From a state of the scratch service that satisfies its invariant (as the initial
  state and every later one do), resolving the same type string twice at the same
  location gives the same result: the same \<open>Type\<close>, so the same text, and the same
  sequence of references, whatever the diagnostics are when the references are
  computed. Between the two calls the buffer is written and the counter advanced, and
  the second call parses the buffer again.
\<close>

theorem getTypeForTypeString_idempotent:
  assumes inv: "scratchInv sc"
    and first: "getTypeForTypeString parse an (Some s) location (sc, ds) = (r1, sc1, ds1)"
    and second: "getTypeForTypeString parse an (Some s) location (sc1, ds1') = (r2, sc2, ds2)"
  shows "r1 = r2
         \<and> map_option typeText r1 = map_option typeText r2
         \<and> map_option (\<lambda>t. fst (callGetReferences an t ds3)) r1 =
           map_option (\<lambda>t. fst (callGetReferences an t ds3')) r2
         \<and> contentsId sc1 = Suc (contentsId sc) \<and> contentsId sc2 = Suc (contentsId sc1)
         \<and> serviceCache sc2 = Some (contentsId sc2, parse (contents sc2))"
proof -
  from first have sc1: "sc1 = snd (parseType parse s sc)"
    using getTypeForTypeString_result(2)[OF inv, of parse an s location ds] by simp
  with inv have inv1: "scratchInv sc1" by (simp add: parseType_inv)
  from first have r1: "r1 = map_option (\<lambda>n. \<lparr>tsType = getTypeFromTypeNode (checker an) n,
      typeText = s, getReferences = Some (n, location)\<rparr>) (parsedType parse s)"
    using getTypeForTypeString_result(1)[OF inv, of parse an s location ds] by simp
  from second have r2: "r2 = map_option (\<lambda>n. \<lparr>tsType = getTypeFromTypeNode (checker an) n,
      typeText = s, getReferences = Some (n, location)\<rparr>) (parsedType parse s)"
    using getTypeForTypeString_result(1)[OF inv1, of parse an s location ds1'] by simp
  from second have sc2: "sc2 = snd (parseType parse s sc1)"
    using getTypeForTypeString_result(2)[OF inv1, of parse an s location ds1'] by simp
  have eq: "r1 = r2" using r1 r2 by simp
  have refs: "map_option (\<lambda>t. fst (callGetReferences an t ds3)) r1 =
              map_option (\<lambda>t. fst (callGetReferences an t ds3')) r2"
    unfolding eq using callGetReferences_indep[of an _ ds3 ds3']
    by (cases r2) simp_all
  have c1: "contentsId sc1 = Suc (contentsId sc)"
    unfolding sc1 by (simp add: parseType_fresh[OF inv])
  have c2: "contentsId sc2 = Suc (contentsId sc1)
            \<and> serviceCache sc2 = Some (contentsId sc2, parse (contents sc2))"
    unfolding sc2 by (simp add: parseType_fresh[OF inv1])
  from eq refs c1 c2 show ?thesis by simp
qed

lemma exampleParse_Foo:
  "exampleParse (typeAliasSource ''Foo'') =
     Some [TypeAliasDeclaration (TypeReferenceNode (EntityIdentifier ''Foo'') [])]"
  by (simp add: exampleParse_def hiTypeString_def typeAliasSource_def)

lemma exampleParse_hi:
  "exampleParse (typeAliasSource hiTypeString) =
     Some [TypeAliasDeclaration (LiteralTypeNode (StringLiteralNode ''hi''))]"
  by (simp add: exampleParse_def)

lemma exampleChecker_more [simp]:
  "getTypeFromTypeNode (checker exampleAnalyzer) = exampleTypeFromTypeNode"
  "typeToString (checker exampleAnalyzer) t = t"
  "getBaseTypeOfLiteralType (checker exampleAnalyzer) t =
     (if t = hiLiteralType then ''string'' else t)"
  "typeToTypeNode (checker exampleAnalyzer) t l = Some (OtherTypeNode [])"
  by (simp_all add: exampleAnalyzer_def exampleChecker_def)

lemma exampleAnalyzer_refs [simp]:
  "getSymbolForName exampleAnalyzer n l = (if n = ''Foo'' then Some n else None)"
  "getReferenceForSymbol exampleAnalyzer s l = (Some \<lparr>refName = s, refModule = None\<rparr>, [])"
  by (simp_all add: exampleAnalyzer_def)

lemma first_call:
  "getTypeForTypeString exampleParse exampleAnalyzer (Some ''Foo'') 10 (initialScratch, []) =
     (Some fooType, afterOne, [])"
  by (simp add: getTypeForTypeString_def parseType_fresh[OF initialScratch_inv] parsedType_def
      exampleParse_Foo typeAliasOf_def exampleTypeFromTypeNode_def fooType_def afterOne_def
      initialScratch_id Let_def)

lemma afterOne_inv: "scratchInv afterOne"
  by (simp add: scratchInv_def afterOne_def)

lemma afterOne_id: "contentsId afterOne = 1"
  by (simp add: afterOne_def)

lemma second_call:
  "getTypeForTypeString exampleParse exampleAnalyzer (Some ''Foo'') 10 (afterOne, []) =
     (Some fooType, afterTwo, [])"
  by (simp add: getTypeForTypeString_def parseType_fresh[OF afterOne_inv] parsedType_def
      exampleParse_Foo typeAliasOf_def exampleTypeFromTypeNode_def fooType_def afterOne_id
      afterTwo_def Let_def)

theorem getTypeForTypeString_idempotent_witness:
  "scratchInv initialScratch
   \<and> getTypeForTypeString exampleParse exampleAnalyzer (Some ''Foo'') 10 (initialScratch, []) =
       (Some fooType, afterOne, [])
   \<and> getTypeForTypeString exampleParse exampleAnalyzer (Some ''Foo'') 10 (afterOne, []) =
       (Some fooType, afterTwo, [])
   \<and> fst (callGetReferences exampleAnalyzer fooType []) = [\<lparr>refName = ''Foo'', refModule = None\<rparr>]
   \<and> contentsId afterOne = Suc (contentsId initialScratch)
   \<and> contentsId afterTwo = Suc (contentsId afterOne)
   \<and> serviceCache afterTwo = Some (contentsId afterTwo, exampleParse (contents afterTwo))"
proof -
  have refs: "fst (callGetReferences exampleAnalyzer fooType []) =
                [\<lparr>refName = ''Foo'', refModule = None\<rparr>]"
    by (simp add: callGetReferences_def getReferencesForTypeNode_def fooType_def)
  from getTypeForTypeString_idempotent[OF initialScratch_inv first_call second_call]
    initialScratch_inv first_call second_call refs
  show ?thesis by simp
qed

section \<open>Literal types\<close>

text \<open>
  C7, as it is written, fails for \<open>getTypeForTypeString\<close>: for the type string
  \<open>'hi'\<close> the text of the result is \<open>'hi'\<close> and its type is the literal type
  \<open>"hi"\<close>, where the checker of the example widens that literal type to \<open>string\<close>.
\<close>

theorem getTypeForTypeString_not_widened_counterexample:
  "map_option typeText
     (fst (getTypeForTypeString exampleParse exampleAnalyzer (Some hiTypeString) 10
             (initialScratch, []))) = Some hiTypeString
   \<and> map_option tsType
     (fst (getTypeForTypeString exampleParse exampleAnalyzer (Some hiTypeString) 10
             (initialScratch, []))) = Some hiLiteralType
   \<and> typeToString (checker exampleAnalyzer)
       (getBaseTypeOfLiteralType (checker exampleAnalyzer) hiLiteralType) = ''string''
   \<and> hiTypeString \<noteq> ''string'' \<and> hiLiteralType \<noteq> ''string''"
  by (simp add: getTypeForTypeString_def parseType_fresh[OF initialScratch_inv] parsedType_def
        exampleParse_hi typeAliasOf_def exampleTypeFromTypeNode_def hiLiteralType_def Let_def)
     (simp add: hiTypeString_def)

text \<open>
  C7, amended. \<open>getTypeForNode\<close> widens: the type of its result is the base type of
  the type at the node, and the text is the checker's print of that base type, so a
  field with the inferred initializer \<open>'hi'\<close> has the text \<open>string\<close>.
  \<open>getTypeForTypeString\<close> does not widen: the text of its result is the type
  string as it was given, and the type is the checker's type of the parsed type node.
\<close>

theorem literal_widening:
  "tsType (fst (getTypeForNode an node ds)) =
     getBaseTypeOfLiteralType (checker an) (getTypeAtLocation (checker an) node)
   \<and> typeText (fst (getTypeForNode an node ds)) =
     typeToString (checker an)
       (getBaseTypeOfLiteralType (checker an) (getTypeAtLocation (checker an) node))
   \<and> (\<forall>t. fst (getTypeForTypeString parse an (Some s) location st) = Some t \<longrightarrow>
          typeText t = s
          \<and> (\<exists>n. getReferences t = Some (n, location)
                 \<and> tsType t = getTypeFromTypeNode (checker an) n))"
  by (auto simp: getTypeForNode_def getTypeForType_def getTypeForTypeString_def Let_def
      split: option.splits)

lemma exampleAnalyzer_member_simps [simp]:
  "hasStaticModifier exampleAnalyzer = exampleIsStatic"
  "getPrivacy exampleAnalyzer = examplePrivacy"
  "getFunctionLikeInfo exampleAnalyzer m n = (examplePosition m, [])"
  "parseNodeJSDocInfo exampleAnalyzer m = (examplePosition m, [])"
  by (simp_all add: exampleAnalyzer_def)

lemma barClass_members:
  "getClassMembers exampleAnalyzer barClass [] =
   (\<lparr>fieldMap =
       [(''bar'', \<lparr>fieldInfo = \<lparr>infoName = ''bar'', infoStatic = False, infoPrivacy = Public\<rparr>,
                   fieldDefault = Some hiTypeString,
                   fieldType = \<lparr>tsType = ''string'', typeText = ''string'',
                                 getReferences = Some (OtherTypeNode [], 10)\<rparr>,
                   fieldDoc = 10\<rparr>)],
      staticFieldMap = [], methodMap = [], staticMethodMap = []\<rparr>, [])"
  by code_simp

theorem literal_widening_witness:
  "getTypeAtLocation (checker exampleAnalyzer) 10 = hiLiteralType
   \<and> typeText (fst (getTypeForNode exampleAnalyzer 10 [])) = ''string''
   \<and> map (typeText \<circ> fieldType \<circ> snd)
       (fieldMap (fst (getClassMembers exampleAnalyzer barClass []))) = [''string'']
   \<and> fst (getTypeForTypeString exampleParse exampleAnalyzer (Some hiTypeString) 10
            (initialScratch, [])) =
       Some \<lparr>tsType = hiLiteralType, typeText = hiTypeString,
             getReferences = Some (LiteralTypeNode (StringLiteralNode ''hi''), 10)\<rparr>"
proof -
  have t: "fst (getTypeForTypeString exampleParse exampleAnalyzer (Some hiTypeString) 10
            (initialScratch, [])) =
       Some \<lparr>tsType = hiLiteralType, typeText = hiTypeString,
             getReferences = Some (LiteralTypeNode (StringLiteralNode ''hi''), 10)\<rparr>"
    by (simp add: getTypeForTypeString_def parseType_fresh[OF initialScratch_inv] parsedType_def
        exampleParse_hi typeAliasOf_def exampleTypeFromTypeNode_def hiLiteralType_def Let_def)
  have l: "getTypeAtLocation (checker exampleAnalyzer) 10 = hiLiteralType"
    by (simp add: exampleTypeAt_def)
  have f: "map (typeText \<circ> fieldType \<circ> snd)
       (fieldMap (fst (getClassMembers exampleAnalyzer barClass []))) = [''string'']"
    by (simp add: barClass_members)
  from literal_widening[of exampleAnalyzer 10 "[]" exampleParse hiTypeString 10
      "(initialScratch, [])"] t l f
  show ?thesis by simp
qed

section \<open>The member maps\<close>

lemma addMember_methodMap:
  "map_of (methodMap (fst (addMember an x st))) =
   map_of (methodMap (fst st)) ++ map_of (implementation an False x)"
  by (cases x)
     (auto simp: addMember_def Let_def newClassMethod_def getMemberInfo_def update_conv' map_add_def
           split: option.splits)

lemma addMember_staticMethodMap:
  "map_of (staticMethodMap (fst (addMember an x st))) =
   map_of (staticMethodMap (fst st)) ++ map_of (implementation an True x)"
  by (cases x)
     (auto simp: addMember_def Let_def newClassMethod_def getMemberInfo_def update_conv' map_add_def
           split: option.splits)

lemma fold_methodMap:
  "map_of (methodMap (fst (fold (addMember an) ms st))) =
   map_of (methodMap (fst st)) ++ map_of (rev (implementations an False ms))"
proof (induction ms arbitrary: st)
  case Nil
  then show ?case by (simp add: implementations_def)
next
  case (Cons x xs)
  have "map_of (rev (implementations an False (x # xs))) =
        map_of (implementation an False x) ++ map_of (rev (implementations an False xs))"
    by (cases x) (auto simp: implementations_def map_add_def fun_eq_iff split: option.splits)
  with Cons.IH[of "addMember an x st"] show ?case
    by (simp add: addMember_methodMap)
qed

lemma fold_staticMethodMap:
  "map_of (staticMethodMap (fst (fold (addMember an) ms st))) =
   map_of (staticMethodMap (fst st)) ++ map_of (rev (implementations an True ms))"
proof (induction ms arbitrary: st)
  case Nil
  then show ?case by (simp add: implementations_def)
next
  case (Cons x xs)
  have "map_of (rev (implementations an True (x # xs))) =
        map_of (implementation an True x) ++ map_of (rev (implementations an True xs))"
    by (cases x) (auto simp: implementations_def map_add_def fun_eq_iff split: option.splits)
  with Cons.IH[of "addMember an x st"] show ?case
    by (simp add: addMember_staticMethodMap)
qed

lemma addMember_distinct:
  assumes "distinct (map fst (fieldMap (fst st)))" "distinct (map fst (staticFieldMap (fst st)))"
    "distinct (map fst (methodMap (fst st)))" "distinct (map fst (staticMethodMap (fst st)))"
  shows "distinct (map fst (fieldMap (fst (addMember an x st)))) \<and>
         distinct (map fst (staticFieldMap (fst (addMember an x st)))) \<and>
         distinct (map fst (methodMap (fst (addMember an x st)))) \<and>
         distinct (map fst (staticMethodMap (fst (addMember an x st))))"
  using assms
  by (cases x) (auto simp: addMember_def Let_def distinct_update)

lemma fold_distinct:
  assumes "distinct (map fst (fieldMap (fst st)))" "distinct (map fst (staticFieldMap (fst st)))"
    "distinct (map fst (methodMap (fst st)))" "distinct (map fst (staticMethodMap (fst st)))"
  shows "distinct (map fst (fieldMap (fst (fold (addMember an) ms st)))) \<and>
         distinct (map fst (staticFieldMap (fst (fold (addMember an) ms st)))) \<and>
         distinct (map fst (methodMap (fst (fold (addMember an) ms st)))) \<and>
         distinct (map fst (staticMethodMap (fst (fold (addMember an) ms st))))"
  using assms
proof (induction ms arbitrary: st)
  case Nil
  then show ?case by simp
next
  case (Cons x xs)
  from addMember_distinct[OF Cons.prems, of an x] Cons.IH[of "addMember an x st"]
  show ?case by simp
qed

lemma addMember_fieldKeys:
  "fst ` set (fieldMap (fst (addMember an x st))) =
   fst ` set (fieldMap (fst st)) \<union> set (fieldName an False x)"
  by (cases x) (auto simp: addMember_def Let_def getMemberInfo_def dom_update)

lemma addMember_staticFieldKeys:
  "fst ` set (staticFieldMap (fst (addMember an x st))) =
   fst ` set (staticFieldMap (fst st)) \<union> set (fieldName an True x)"
  by (cases x) (auto simp: addMember_def Let_def getMemberInfo_def dom_update)

lemma fold_fieldKeys:
  "fst ` set (fieldMap (fst (fold (addMember an) ms st))) =
   fst ` set (fieldMap (fst st)) \<union> set (fieldNames an False ms)"
proof (induction ms arbitrary: st)
  case Nil
  then show ?case by (simp add: fieldNames_def)
next
  case (Cons x xs)
  from Cons.IH[of "addMember an x st"] show ?case
    by (auto simp: addMember_fieldKeys fieldNames_def)
qed

lemma fold_staticFieldKeys:
  "fst ` set (staticFieldMap (fst (fold (addMember an) ms st))) =
   fst ` set (staticFieldMap (fst st)) \<union> set (fieldNames an True ms)"
proof (induction ms arbitrary: st)
  case Nil
  then show ?case by (simp add: fieldNames_def)
next
  case (Cons x xs)
  from Cons.IH[of "addMember an x st"] show ?case
    by (auto simp: addMember_staticFieldKeys fieldNames_def)
qed

lemma implementations_mem:
  "(k, e) \<in> set (implementations an s ms) \<longleftrightarrow>
   (\<exists>decl. MethodDeclaration decl True \<in> set ms
      \<and> hasStaticModifier an (MethodDeclaration decl True) = s
      \<and> k = getText (memberName decl)
      \<and> e = newClassMethod an (MethodDeclaration decl True) decl)"
proof (induction ms)
  case Nil
  then show ?case by (simp add: implementations_def)
next
  case (Cons x xs)
  have "(k, e) \<in> set (implementation an s x) \<longleftrightarrow>
        (\<exists>decl. x = MethodDeclaration decl True
           \<and> hasStaticModifier an (MethodDeclaration decl True) = s
           \<and> k = getText (memberName decl)
           \<and> e = newClassMethod an (MethodDeclaration decl True) decl)"
    by (cases x) auto
  with Cons show ?case
    by (auto simp: implementations_def)
qed

lemma map_of_unique:
  "(k, v) \<in> set xs \<Longrightarrow> (\<And>v'. (k, v') \<in> set xs \<Longrightarrow> v' = v) \<Longrightarrow> map_of xs k = Some v"
proof -
  assume mem: "(k, v) \<in> set xs" and uniq: "\<And>v'. (k, v') \<in> set xs \<Longrightarrow> v' = v"
  from mem obtain v' where v': "map_of xs k = Some v'"
    by (meson weak_map_of_SomeI)
  then have "(k, v') \<in> set xs" by (rule map_of_SomeD)
  with uniq v' show ?thesis by simp
qed

lemma filter_key_distinct:
  "distinct (map fst m) \<Longrightarrow> map_of m k = Some v \<Longrightarrow> filter (\<lambda>p. fst p = k) m = [(k, v)]"
proof (induction m)
  case Nil
  then show ?case by simp
next
  case (Cons p m)
  show ?case
  proof (cases "fst p = k")
    case True
    with Cons.prems have "p = (k, v)" by (cases p) simp
    moreover from True Cons.prems(1) have "k \<notin> fst ` set m" by auto
    then have "filter (\<lambda>q. fst q = k) m = []"
      unfolding filter_empty_conv by (metis image_eqI)
    ultimately show ?thesis by simp
  next
    case False
    with Cons show ?thesis by simp
  qed
qed

lemma getClassMembers_distinct:
  "distinct (map fst (fieldMap (fst (getClassMembers an d ds))))"
  "distinct (map fst (staticFieldMap (fst (getClassMembers an d ds))))"
  "distinct (map fst (methodMap (fst (getClassMembers an d ds))))"
  "distinct (map fst (staticMethodMap (fst (getClassMembers an d ds))))"
  using fold_distinct[of "(emptyMembers, ds)" an "members d"]
  by (simp_all add: getClassMembers_def emptyMembers_def)

lemma getClassMembers_methodMap:
  "map_of (methodMap (fst (getClassMembers an d ds))) =
     map_of (rev (implementations an False (members d)))"
  "map_of (staticMethodMap (fst (getClassMembers an d ds))) =
     map_of (rev (implementations an True (members d)))"
  by (simp_all add: getClassMembers_def fold_methodMap fold_staticMethodMap emptyMembers_def)

lemma methods_of_static:
  "map_of (if s then staticMethodMap (fst (getClassMembers an d ds))
           else methodMap (fst (getClassMembers an d ds))) =
     map_of (rev (implementations an s (members d)))"
  by (simp add: getClassMembers_methodMap)

lemma methods_provenance:
  assumes "p \<in> set (if s then staticMethodMap (fst (getClassMembers an d ds))
                     else methodMap (fst (getClassMembers an d ds)))"
  shows "\<exists>decl. MethodDeclaration decl True \<in> set (members d)
           \<and> hasStaticModifier an (MethodDeclaration decl True) = s
           \<and> p = (getText (memberName decl), newClassMethod an (MethodDeclaration decl True) decl)"
proof -
  let ?m = "if s then staticMethodMap (fst (getClassMembers an d ds))
            else methodMap (fst (getClassMembers an d ds))"
  have dist: "distinct (map fst ?m)" by (simp add: getClassMembers_distinct)
  obtain k e where p: "p = (k, e)" by (cases p)
  with assms dist have "map_of ?m k = Some e" by (intro map_of_is_SomeI) auto
  then have "map_of (rev (implementations an s (members d))) k = Some e"
    by (simp only: methods_of_static)
  then have "(k, e) \<in> set (implementations an s (members d))"
    by (auto dest: map_of_SomeD)
  with p show ?thesis by (auto simp: implementations_mem)
qed

text \<open>
  C4. Every entry of either method map is built from a method declaration of the class
  that has an implementation body, so no overload signature is ever placed in a map,
  and no name has two entries in a map. For an overloaded method (among the method
  declarations of its name and staticness, one has a body: the implementation), the
  map of its staticness has exactly one entry under that name, which is the one built
  from the implementation.
\<close>

theorem getClassMembers_overloads:
  assumes r: "r = fst (getClassMembers an d ds)"
  shows "(\<forall>p\<in>set (methodMap r) \<union> set (staticMethodMap r).
            \<exists>decl. MethodDeclaration decl True \<in> set (members d)
              \<and> p = (getText (memberName decl),
                      newClassMethod an (MethodDeclaration decl True) decl))
         \<and> distinct (map fst (methodMap r))
         \<and> distinct (map fst (staticMethodMap r))
         \<and> (\<forall>decl.
              MethodDeclaration decl True \<in> set (members d)
              \<and> (\<forall>decl'. MethodDeclaration decl' True \<in> set (members d)
                     \<and> getText (memberName decl') = getText (memberName decl)
                     \<and> hasStaticModifier an (MethodDeclaration decl' True) =
                       hasStaticModifier an (MethodDeclaration decl True)
                     \<longrightarrow> decl' = decl)
              \<longrightarrow> filter (\<lambda>p. fst p = getText (memberName decl))
                    (if hasStaticModifier an (MethodDeclaration decl True)
                     then staticMethodMap r else methodMap r) =
                  [(getText (memberName decl),
                    newClassMethod an (MethodDeclaration decl True) decl)])"
proof (intro conjI ballI allI impI)
  fix p assume "p \<in> set (methodMap r) \<union> set (staticMethodMap r)"
  then show "\<exists>decl. MethodDeclaration decl True \<in> set (members d)
              \<and> p = (getText (memberName decl),
                      newClassMethod an (MethodDeclaration decl True) decl)"
    using methods_provenance[of p False an d ds] methods_provenance[of p True an d ds]
    unfolding r by auto
next
  show "distinct (map fst (methodMap r))"
    unfolding r by (rule getClassMembers_distinct(3))
next
  show "distinct (map fst (staticMethodMap r))"
    unfolding r by (rule getClassMembers_distinct(4))
next
  fix decl
  assume a: "MethodDeclaration decl True \<in> set (members d)
              \<and> (\<forall>decl'. MethodDeclaration decl' True \<in> set (members d)
                     \<and> getText (memberName decl') = getText (memberName decl)
                     \<and> hasStaticModifier an (MethodDeclaration decl' True) =
                       hasStaticModifier an (MethodDeclaration decl True)
                     \<longrightarrow> decl' = decl)"
  let ?s = "hasStaticModifier an (MethodDeclaration decl True)"
  let ?k = "getText (memberName decl)"
  let ?e = "newClassMethod an (MethodDeclaration decl True) decl"
  let ?m = "if ?s then staticMethodMap r else methodMap r"
  have mem: "(?k, ?e) \<in> set (rev (implementations an ?s (members d)))"
    using a by (auto simp: implementations_mem)
  have uniq: "e' = ?e" if "(?k, e') \<in> set (rev (implementations an ?s (members d)))" for e'
    using that a by (auto simp: implementations_mem)
  have "map_of (rev (implementations an ?s (members d))) ?k = Some ?e"
    using mem uniq by (rule map_of_unique)
  then have "map_of ?m ?k = Some ?e"
    unfolding r by (simp only: methods_of_static)
  moreover have "distinct (map fst ?m)"
    unfolding r by (simp add: getClassMembers_distinct)
  ultimately show "filter (\<lambda>p. fst p = ?k) ?m = [(?k, ?e)]"
    by (rule filter_key_distinct[rotated])
qed

lemma overloadedClass_members:
  "getClassMembers exampleAnalyzer overloadedClass [] =
   (\<lparr>fieldMap = [], staticFieldMap = [],
      methodMap =
       [(''foo'', \<lparr>methodInfo = \<lparr>infoName = ''foo'', infoStatic = False, infoPrivacy = Public\<rparr>,
                   methodFunction = 82, methodDoc = 82\<rparr>)],
      staticMethodMap = []\<rparr>, [])"
  by code_simp

theorem getClassMembers_overloads_witness:
  "MethodDeclaration (fooDecl 82) True \<in> set (members overloadedClass)
   \<and> MethodDeclaration (fooDecl 80) False \<in> set (members overloadedClass)
   \<and> filter (\<lambda>p. fst p = ''foo'')
       (methodMap (fst (getClassMembers exampleAnalyzer overloadedClass []))) =
       [(''foo'', newClassMethod exampleAnalyzer (MethodDeclaration (fooDecl 82) True) (fooDecl 82))]
   \<and> methodMap (fst (getClassMembers exampleAnalyzer overloadedClass [])) =
       [(''foo'', \<lparr>methodInfo = \<lparr>infoName = ''foo'', infoStatic = False, infoPrivacy = Public\<rparr>,
                   methodFunction = 82, methodDoc = 82\<rparr>)]
   \<and> staticMethodMap (fst (getClassMembers exampleAnalyzer overloadedClass [])) = []"
proof -
  let ?r = "fst (getClassMembers exampleAnalyzer overloadedClass [])"
  have m: "MethodDeclaration (fooDecl 82) True \<in> set (members overloadedClass)"
    "MethodDeclaration (fooDecl 80) False \<in> set (members overloadedClass)"
    by (simp_all add: overloadedClass_def)
  have u: "\<forall>decl'. MethodDeclaration decl' True \<in> set (members overloadedClass)
             \<and> getText (memberName decl') = getText (memberName (fooDecl 82))
             \<and> hasStaticModifier exampleAnalyzer (MethodDeclaration decl' True) =
               hasStaticModifier exampleAnalyzer (MethodDeclaration (fooDecl 82) True)
             \<longrightarrow> decl' = fooDecl 82"
    by (simp add: overloadedClass_def)
  have s: "\<not> hasStaticModifier exampleAnalyzer (MethodDeclaration (fooDecl 82) True)"
    "getText (memberName (fooDecl 82)) = ''foo''"
    by (simp_all add: fooDecl_def exampleIsStatic_def)
  from spec[OF conjunct2[OF conjunct2[OF conjunct2[OF getClassMembers_overloads[OF refl,
          of exampleAnalyzer overloadedClass "[]"]]]], of "fooDecl 82"]
  have "MethodDeclaration (fooDecl 82) True \<in> set (members overloadedClass)
          \<and> (\<forall>decl'. MethodDeclaration decl' True \<in> set (members overloadedClass)
                 \<and> getText (memberName decl') = getText (memberName (fooDecl 82))
                 \<and> hasStaticModifier exampleAnalyzer (MethodDeclaration decl' True) =
                   hasStaticModifier exampleAnalyzer (MethodDeclaration (fooDecl 82) True)
                 \<longrightarrow> decl' = fooDecl 82)
          \<longrightarrow> filter (\<lambda>p. fst p = getText (memberName (fooDecl 82)))
                (if hasStaticModifier exampleAnalyzer (MethodDeclaration (fooDecl 82) True)
                 then staticMethodMap ?r else methodMap ?r) =
              [(getText (memberName (fooDecl 82)),
                newClassMethod exampleAnalyzer (MethodDeclaration (fooDecl 82) True)
                  (fooDecl 82))]" .
  with m(1) u have "filter (\<lambda>p. fst p = getText (memberName (fooDecl 82)))
                (if hasStaticModifier exampleAnalyzer (MethodDeclaration (fooDecl 82) True)
                 then staticMethodMap ?r else methodMap ?r) =
              [(getText (memberName (fooDecl 82)),
                newClassMethod exampleAnalyzer (MethodDeclaration (fooDecl 82) True)
                  (fooDecl 82))]"
    by blast
  with s have flt: "filter (\<lambda>p. fst p = ''foo'') (methodMap ?r) =
       [(''foo'', newClassMethod exampleAnalyzer (MethodDeclaration (fooDecl 82) True)
                   (fooDecl 82))]"
    by simp
  have e: "methodMap ?r =
       [(''foo'', \<lparr>methodInfo = \<lparr>infoName = ''foo'', infoStatic = False, infoPrivacy = Public\<rparr>,
                   methodFunction = 82, methodDoc = 82\<rparr>)]"
     "staticMethodMap ?r = []"
    by (simp_all add: overloadedClass_members)
  from m flt e show ?thesis by blast
qed

section \<open>Properties that are not named with an identifier\<close>

lemma getTypeForNode_extends:
  "\<exists>new. snd (getTypeForNode an l ds) = ds @ new"
  by (simp add: getTypeForNode_def getTypeForType_def addDiagnostic_def Let_def
      split: option.splits)

lemma addMember_diagnostics:
  "\<exists>new. snd (addMember an x st) = snd st @ new
     \<and> (\<forall>decl init. x = PropertyDeclaration decl init \<and> \<not> isIdentifierName (memberName decl)
           \<longrightarrow> unsupportedProperty decl \<in> set new)"
proof (cases x)
  case (MethodDeclaration decl body)
  then show ?thesis by (simp add: addMember_def Let_def)
next
  case (PropertyDeclaration decl init)
  obtain new where "snd (getTypeForNode an (memberPos decl) (snd st)) = snd st @ new"
    using getTypeForNode_extends by blast
  with PropertyDeclaration show ?thesis
    by (simp add: addMember_def Let_def unsupportedProperty_def addDiagnostic_def)
next
  case OtherClassElement
  then show ?thesis by (simp add: addMember_def)
qed

lemma fold_diagnostics:
  "\<exists>new. snd (fold (addMember an) ms st) = snd st @ new
     \<and> (\<forall>decl init. PropertyDeclaration decl init \<in> set ms
             \<and> \<not> isIdentifierName (memberName decl)
           \<longrightarrow> unsupportedProperty decl \<in> set new)"
proof (induction ms arbitrary: st)
  case Nil
  then show ?case by simp
next
  case (Cons x xs)
  obtain n1 where n1: "snd (addMember an x st) = snd st @ n1"
    and u1: "\<forall>decl init. x = PropertyDeclaration decl init
               \<and> \<not> isIdentifierName (memberName decl)
             \<longrightarrow> unsupportedProperty decl \<in> set n1"
    using addMember_diagnostics[of an x st] by blast
  obtain n2
    where n2: "snd (fold (addMember an) xs (addMember an x st)) = snd (addMember an x st) @ n2"
      and u2: "\<forall>decl init. PropertyDeclaration decl init \<in> set xs
                 \<and> \<not> isIdentifierName (memberName decl)
               \<longrightarrow> unsupportedProperty decl \<in> set n2"
    using Cons.IH[of "addMember an x st"] by blast
  have "snd (fold (addMember an) (x # xs) st) = snd st @ (n1 @ n2)"
    using n1 n2 by simp
  moreover have "\<forall>decl init. PropertyDeclaration decl init \<in> set (x # xs)
      \<and> \<not> isIdentifierName (memberName decl) \<longrightarrow> unsupportedProperty decl \<in> set (n1 @ n2)"
    using u1 u2 by auto
  ultimately show ?case by blast
qed

lemma keys_length:
  "distinct (map fst m) \<Longrightarrow> fst ` set m = set ks \<Longrightarrow> length m = length (remdups ks)"
proof -
  assume d: "distinct (map fst m)" and k: "fst ` set m = set ks"
  have "length m = card (fst ` set m)" using distinct_card[OF d] by simp
  also have "\<dots> = card (set ks)" using k by simp
  also have "\<dots> = length (remdups ks)" by (simp add: length_remdups_card_conv)
  finally show ?thesis .
qed

text \<open>
  C5, as it is written, fails in its last part: for \<open>class Twice { x = 1; x = 2; }\<close>
  the class has two property declarations that are named with an identifier and are not
  static, and the map of the instance fields has one entry, the second declaration
  having overwritten the first.
\<close>

theorem getClassMembers_duplicate_field_counterexample:
  "length (fieldMap (fst (getClassMembers exampleAnalyzer duplicateFieldsClass []))) = 1
   \<and> length (fieldNames exampleAnalyzer False (members duplicateFieldsClass)) = 2"
  by code_simp

text \<open>
  C5, amended. For every property declaration whose name is not an identifier,
  \<open>getClassMembers\<close> appends a diagnostic of the category warning and with the code
  \<open>UNSUPPORTED\<close>. The keys of each field map are the names of the property
  declarations of its staticness that are named with an identifier, and of no other
  member; a name that several declarations share has one entry, so the size of each
  field map is the number of distinct names among these declarations (their count
  when no name repeats).
\<close>

theorem getClassMembers_fields:
  assumes r: "r = getClassMembers an d ds"
  shows "(\<exists>new. snd r = ds @ new
            \<and> (\<forall>decl init. PropertyDeclaration decl init \<in> set (members d)
                   \<and> \<not> isIdentifierName (memberName decl)
                 \<longrightarrow> unsupportedProperty decl \<in> set new
                     \<and> category (unsupportedProperty decl) = Some Warning
                     \<and> code (unsupportedProperty decl) = Some UNSUPPORTED))
         \<and> fst ` set (fieldMap (fst r)) = set (fieldNames an False (members d))
         \<and> fst ` set (staticFieldMap (fst r)) = set (fieldNames an True (members d))
         \<and> length (fieldMap (fst r)) = length (remdups (fieldNames an False (members d)))
         \<and> length (staticFieldMap (fst r)) = length (remdups (fieldNames an True (members d)))"
proof -
  obtain new where new: "snd r = ds @ new"
    and u: "\<forall>decl init. PropertyDeclaration decl init \<in> set (members d)
              \<and> \<not> isIdentifierName (memberName decl) \<longrightarrow> unsupportedProperty decl \<in> set new"
    using fold_diagnostics[of an "members d" "(emptyMembers, ds)"]
    unfolding r getClassMembers_def by auto
  have c: "category (unsupportedProperty decl) = Some Warning
           \<and> code (unsupportedProperty decl) = Some UNSUPPORTED" for decl
    by (simp add: unsupportedProperty_def createDiagnostic_def)
  have k1: "fst ` set (fieldMap (fst r)) = set (fieldNames an False (members d))"
    unfolding r getClassMembers_def by (simp add: fold_fieldKeys emptyMembers_def)
  have k2: "fst ` set (staticFieldMap (fst r)) = set (fieldNames an True (members d))"
    unfolding r getClassMembers_def by (simp add: fold_staticFieldKeys emptyMembers_def)
  have l1: "length (fieldMap (fst r)) = length (remdups (fieldNames an False (members d)))"
    using keys_length[OF _ k1] getClassMembers_distinct(1)[of an d ds] unfolding r by simp
  have l2: "length (staticFieldMap (fst r)) =
            length (remdups (fieldNames an True (members d)))"
    using keys_length[OF _ k2] getClassMembers_distinct(2)[of an d ds] unfolding r by simp
  from new u c k1 k2 l1 l2 show ?thesis by blast
qed

lemma fieldsClass_members:
  "getClassMembers exampleAnalyzer fieldsClass [] =
   (\<lparr>fieldMap =
       [(''x'', \<lparr>fieldInfo = \<lparr>infoName = ''x'', infoStatic = False, infoPrivacy = Public\<rparr>,
                 fieldDefault = Some ''1'',
                 fieldType = \<lparr>tsType = ''any'', typeText = ''any'',
                               getReferences = Some (OtherTypeNode [], 60)\<rparr>,
                 fieldDoc = 60\<rparr>)],
      staticFieldMap =
       [(''y'', \<lparr>fieldInfo = \<lparr>infoName = ''y'', infoStatic = True, infoPrivacy = Public\<rparr>,
                 fieldDefault = None,
                 fieldType = \<lparr>tsType = ''any'', typeText = ''any'',
                               getReferences = Some (OtherTypeNode [], 62)\<rparr>,
                 fieldDoc = 62\<rparr>)],
      methodMap = [], staticMethodMap = []\<rparr>,
    [unsupportedProperty computedDecl])"
  by code_simp

theorem getClassMembers_fields_witness:
  "PropertyDeclaration computedDecl (Some ''2'') \<in> set (members fieldsClass)
   \<and> \<not> isIdentifierName (memberName computedDecl)
   \<and> unsupportedProperty computedDecl
       \<in> set (snd (getClassMembers exampleAnalyzer fieldsClass []))
   \<and> map fst (fieldMap (fst (getClassMembers exampleAnalyzer fieldsClass []))) = [''x'']
   \<and> map fst (staticFieldMap (fst (getClassMembers exampleAnalyzer fieldsClass []))) = [''y'']
   \<and> fieldNames exampleAnalyzer False (members fieldsClass) = [''x'']
   \<and> fieldNames exampleAnalyzer True (members fieldsClass) = [''y'']"
proof -
  have m: "PropertyDeclaration computedDecl (Some ''2'') \<in> set (members fieldsClass)"
    by (simp add: fieldsClass_def)
  have n: "\<not> isIdentifierName (memberName computedDecl)"
    by (simp add: computedDecl_def)
  have f: "fieldNames exampleAnalyzer False (members fieldsClass) = [''x'']"
    "fieldNames exampleAnalyzer True (members fieldsClass) = [''y'']"
    by (simp_all add: fieldNames_def fieldsClass_def fieldX_def fieldY_def computedDecl_def
        exampleIsStatic_def)
  from conjunct1[OF getClassMembers_fields[OF refl, of exampleAnalyzer fieldsClass "[]"]]
  obtain new where new: "snd (getClassMembers exampleAnalyzer fieldsClass []) = [] @ new"
    and u: "\<forall>decl init. PropertyDeclaration decl init \<in> set (members fieldsClass)
                   \<and> \<not> isIdentifierName (memberName decl)
                 \<longrightarrow> unsupportedProperty decl \<in> set new
                     \<and> category (unsupportedProperty decl) = Some Warning
                     \<and> code (unsupportedProperty decl) = Some UNSUPPORTED"
    by (elim exE conjE)
  from u m n have "unsupportedProperty computedDecl \<in> set new" by blast
  with new have d: "unsupportedProperty computedDecl
      \<in> set (snd (getClassMembers exampleAnalyzer fieldsClass []))" by simp
  have k: "map fst (fieldMap (fst (getClassMembers exampleAnalyzer fieldsClass []))) = [''x'']"
    "map fst (staticFieldMap (fst (getClassMembers exampleAnalyzer fieldsClass []))) = [''y'']"
    by (simp_all add: fieldsClass_members)
  from m n d k f show ?thesis by blast
qed

section \<open>Fallbacks\<close>

lemma exampleAnalyzer_class_simps [simp]:
  "hasDefaultModifier exampleAnalyzer c = (DefaultKeyword \<in> set (classModifiers c))"
  "hasExportModifier exampleAnalyzer c = (ExportKeyword \<in> set (classModifiers c))"
  by (simp_all add: exampleAnalyzer_def)











lemma unprintableAnalyzer_simps [simp]:
  "typeToTypeNode (checker unprintableAnalyzer) t l = None"
  "getBaseTypeOfLiteralType (checker unprintableAnalyzer) t =
     (if t = hiLiteralType then ''string'' else t)"
  "typeToString (checker unprintableAnalyzer) t = t"
  by (simp_all add: unprintableAnalyzer_def exampleChecker_def)




end
